theory Spec2Isabelle
  imports Main "HOL-Library.AList"
begin

section \<open>AutoMapper (dist/automapper.js): data model\<close>

text \<open>
  Values that flow through the mapper. A JavaScript object is its list of own enumerable
  properties in enumeration order, tagged with the class it was constructed from (if any);
  numbers are restricted to integers, and the values have no functions among them.
  Property names are assumed not to be array indices unless the object is an array.
\<close>

datatype jsval =
    Undefined
  | Null
  | Bool bool
  | Num int
  | Str string
  | Arr "jsval list"
  | Obj "string option" "(string \<times> jsval) list"

datatype error =
    MappingNotFound string string
  | ProfileNotFound string
  | InvalidConfiguration
  | TypeError
  | UserError string

text \<open>The empty object literal \<open>{}\<close>.\<close>

definition emptyObject :: jsval where
  "emptyObject = Obj None []"

text \<open>JavaScript truthiness, as tested by \<open>if (destinationObject)\<close>.\<close>

fun truthy :: "jsval \<Rightarrow> bool" where
  "truthy Undefined = False"
| "truthy Null = False"
| "truthy (Bool b) = b"
| "truthy (Num n) = (n \<noteq> 0)"
| "truthy (Str s) = (s \<noteq> [])"
| "truthy (Arr xs) = True"
| "truthy (Obj c fs) = True"

text \<open>
  The dictionaries of the mapper are plain objects (\<open>{}\<close>), so reading \<open>dictionary[name]\<close>
  finds, besides the entries stored, the members every object inherits from
  \<open>Object.prototype\<close>: functions, and for \<open>__proto__\<close> the prototype itself, all truthy.
\<close>

definition objectPrototypeKeys :: "string list" where
  "objectPrototypeKeys =
     [''constructor'', ''hasOwnProperty'', ''isPrototypeOf'', ''propertyIsEnumerable'',
      ''toLocaleString'', ''toString'', ''valueOf'', ''__proto__'',
      ''__defineGetter__'', ''__defineSetter__'', ''__lookupGetter__'', ''__lookupSetter__'']"

definition inherited :: "string \<Rightarrow> bool" where
  "inherited name = (name \<in> set objectPrototypeKeys)"

subsection \<open>User callbacks\<close>

text \<open>
  A member callback is a JavaScript function of one options object. It can read the three
  data fields of the options object, call its methods, and then return a value or throw.
  The methods return nothing, so the behaviour of a callback is the sequence of method calls
  it makes and its outcome, as a function of the data fields.
\<close>

type_synonym predicate = "jsval \<Rightarrow> error + jsval"

datatype action =
    CallIgnore
  | CallMapFrom string
  | CallCondition predicate

datatype outcome = Return jsval | Throw error

record optsData =
  sourceObject :: jsval
  sourcePropertyName :: jsval
  destinationPropertyValue :: jsval

type_synonym memberFunc = "optsData \<Rightarrow> action list \<times> outcome"

datatype valueOrFunction = Value jsval | Function memberFunc

record resolutionContext =
  sourceValue :: jsval
  destinationValue :: jsval

type_synonym typeConverterFunction = "resolutionContext \<Rightarrow> error + jsval"

text \<open>
  A forAllMembers handler receives (destinationObject, propertyName, value) and updates the
  destination object itself; the model returns the updated object.
\<close>

type_synonym allMembersFunc = "jsval \<Rightarrow> string \<Rightarrow> jsval \<Rightarrow> error + jsval"

text \<open>A destination class: its name and the fields its constructor initialises.\<close>

datatype typeClass = TypeClass string "(string \<times> jsval) list"

fun new :: "typeClass \<Rightarrow> jsval" where
  "new (TypeClass name members) = Obj (Some name) members"

subsection \<open>Member mappings, mapping definitions, profiles\<close>

record memberMapping =
  sourceProperty :: string
  destinationProperty :: "string option"
  mappingValuesAndFunctions :: "valueOrFunction list"
  ignore :: bool
  conditionFunction :: "predicate option"

text \<open>
  A splitting expression is a regular expression, given by its matcher: at a position of a
  string it fails, or yields the length of the match and the captured groups.
\<close>

type_synonym splittingExpression = "string \<Rightarrow> nat \<Rightarrow> (nat \<times> string list) option"

record namingConvention =
  splittingExpression :: splittingExpression
  transformPropertyName :: "string list \<Rightarrow> error + string"

record profile =
  profileName :: string
  sourceMemberNamingConvention :: "namingConvention option"
  destinationMemberNamingConvention :: "namingConvention option"

record mapping =
  sourceKey :: string
  destinationKey :: string
  forAllMemberMappings :: "allMembersFunc list"
  forMemberMappings :: "(string \<times> memberMapping) list"
  typeConverterFunction :: "typeConverterFunction option"
  destinationTypeClass :: "typeClass option"
  profile :: "profile option"

text \<open>
  The singleton: \<open>profiles\<close> and \<open>mappings\<close> are dictionaries; a mapping object lives in
  \<open>objects\<close> and the registry holds its address, because the chain handle returned by
  createMap keeps the object it created even after the registry key is overwritten.
  \<open>arrays\<close> is the store of the argument arrays that curried calls allocate and change.
\<close>

record automapper =
  profiles :: "(string \<times> profile) list"
  mappings :: "(string \<times> nat) list"
  objects :: "mapping list"
  arrays :: "jsval list list"

definition initial :: automapper where
  "initial = \<lparr>profiles = [], mappings = [], objects = [], arrays = []\<rparr>"

section \<open>Fluent configuration\<close>

subsection \<open>forMember\<close>

text \<open>createMapForMemberFindMember: first member, in enumeration order, with that destination.\<close>

fun findMemberIn :: "(string \<times> memberMapping) list \<Rightarrow> string option \<Rightarrow> memberMapping option" where
  "findMemberIn [] d = None"
| "findMemberIn ((property, memberMapping) # rest) d =
     (if destinationProperty memberMapping = d then Some memberMapping else findMemberIn rest d)"

definition createMapForMemberFindMember :: "mapping \<Rightarrow> string option \<Rightarrow> memberMapping option" where
  "createMapForMemberFindMember mapping destinationPropertyName =
     findMemberIn (forMemberMappings mapping) destinationPropertyName"

text \<open>
  The object found is changed in place; in the dictionary this shows at the entry it was
  found under.
\<close>

fun mutateFound :: "string option \<Rightarrow> memberMapping \<Rightarrow> (string \<times> memberMapping) list
    \<Rightarrow> (string \<times> memberMapping) list" where
  "mutateFound d m' [] = []"
| "mutateFound d m' ((property, memberMapping) # rest) =
     (if destinationProperty memberMapping = d then (property, m') # rest
      else (property, memberMapping) # mutateFound d m' rest)"

text \<open>
  The declaration-phase options object: ignore, condition and mapFrom act on the member
  mapping; the flag says whether the function is still to be added. ignore() resets the
  source property to the destination property; forMember only works on members that have
  one (it finds them by it, or creates them with it).
\<close>

fun declare_action :: "memberMapping \<times> bool \<Rightarrow> action \<Rightarrow> memberMapping \<times> bool" where
  "declare_action (memberMapping, addMappingValueOrFunction) CallIgnore =
     (memberMapping\<lparr>ignore := True,
                     sourceProperty := (case destinationProperty memberMapping of
                                          Some d \<Rightarrow> d | None \<Rightarrow> sourceProperty memberMapping),
                     mappingValuesAndFunctions := []\<rparr>, False)"
| "declare_action (memberMapping, addMappingValueOrFunction) (CallCondition predicate) =
     (memberMapping\<lparr>conditionFunction := Some predicate\<rparr>, addMappingValueOrFunction)"
| "declare_action (memberMapping, addMappingValueOrFunction) (CallMapFrom name) =
     (memberMapping\<lparr>sourceProperty := name\<rparr>, addMappingValueOrFunction)"

definition declarationOptions :: "memberMapping \<Rightarrow> optsData" where
  "declarationOptions memberMapping =
     \<lparr>sourceObject = Obj None [(sourceProperty memberMapping, emptyObject)],
      sourcePropertyName = Str (sourceProperty memberMapping),
      destinationPropertyValue = emptyObject\<rparr>"

text \<open>
  createMapForMemberHandleMappingFunction: the function runs once against the stub; what it
  throws is caught and dropped; it is pushed unless ignore() was called.
\<close>

definition createMapForMemberHandleMappingFunction :: "memberMapping \<Rightarrow> memberFunc \<Rightarrow> memberMapping" where
  "createMapForMemberHandleMappingFunction memberMapping mappingFunction =
     (let (calls, result) = mappingFunction (declarationOptions memberMapping);
          (memberMapping', addMappingValueOrFunction) = foldl declare_action (memberMapping, True) calls
      in if addMappingValueOrFunction
         then memberMapping'\<lparr>mappingValuesAndFunctions :=
                mappingValuesAndFunctions memberMapping' @ [Function mappingFunction]\<rparr>
         else memberMapping')"

definition memberDefaults :: "string \<Rightarrow> memberMapping" where
  "memberDefaults dest =
     \<lparr>sourceProperty = dest,
      destinationProperty = Some dest,
      mappingValuesAndFunctions = [],
      ignore = False,
      conditionFunction = None\<rparr>"

definition applyValueOrFunction :: "memberMapping \<Rightarrow> valueOrFunction \<Rightarrow> memberMapping" where
  "applyValueOrFunction memberMapping valueOrFunction =
     (case valueOrFunction of
        Function f \<Rightarrow> createMapForMemberHandleMappingFunction memberMapping f
      | Value v \<Rightarrow> memberMapping\<lparr>mappingValuesAndFunctions :=
                     mappingValuesAndFunctions memberMapping @ [Value v]\<rparr>)"

text \<open>
  The re-keying at the end of createMapForMember. \<open>original\<close> is the source property name
  saved before the call (\<open>None\<close> for a new member); it is falsy when absent or empty.
  The names that configuration stores members under (the arguments of forMember and of
  mapFrom) are taken not to be \<open>__proto__\<close>, for which the store would replace the
  prototype of the dictionary instead of adding an entry.
\<close>

definition rekey :: "string option \<Rightarrow> memberMapping \<Rightarrow> (string \<times> memberMapping) list
    \<Rightarrow> (string \<times> memberMapping) list" where
  "rekey original memberMapping members =
     (case original of
        None \<Rightarrow> AList.update (sourceProperty memberMapping) memberMapping members
      | Some originalSourcePropertyName \<Rightarrow>
          if originalSourcePropertyName = [] then
            AList.update (sourceProperty memberMapping) memberMapping members
          else if originalSourcePropertyName \<noteq> sourceProperty memberMapping then
            AList.update (sourceProperty memberMapping) memberMapping
              (AList.delete originalSourcePropertyName members)
          else members)"

definition createMapForMember :: "mapping \<Rightarrow> string \<Rightarrow> valueOrFunction \<Rightarrow> mapping" where
  "createMapForMember mapping dest valueOrFunction =
     (case createMapForMemberFindMember mapping (Some dest) of
        Some found \<Rightarrow>
          if ignore found then mapping
          else
            (let memberMapping = applyValueOrFunction found valueOrFunction
             in mapping\<lparr>forMemberMappings :=
                  rekey (Some (sourceProperty found)) memberMapping
                    (mutateFound (Some dest) memberMapping (forMemberMappings mapping))\<rparr>)
      | None \<Rightarrow>
          (let memberMapping = applyValueOrFunction (memberDefaults dest) valueOrFunction
           in mapping\<lparr>forMemberMappings :=
                rekey None memberMapping (forMemberMappings mapping)\<rparr>))"

subsection \<open>forSourceMember\<close>

text \<open>
  The options object of forSourceMember has ignore() only: a call of any other method is a
  call of \<open>undefined\<close> and raises. Nothing here is inside a try block. When no member is
  stored under the source property and the name is an inherited one, the member read is
  the inherited function: it has no sequence to push onto, so pushing raises; ignoring
  sets the flag and an empty sequence on that shared function and leaves the definition as
  it is (the shared function itself is not part of the model).
\<close>

fun sourceMemberCalls :: "action list \<Rightarrow> bool \<Rightarrow> error + bool" where
  "sourceMemberCalls [] ignored = Inr ignored"
| "sourceMemberCalls (CallIgnore # rest) ignored = sourceMemberCalls rest True"
| "sourceMemberCalls (CallMapFrom n # rest) ignored = Inl TypeError"
| "sourceMemberCalls (CallCondition p # rest) ignored = Inl TypeError"

definition sourceMemberOptions :: optsData where
  "sourceMemberOptions =
     \<lparr>sourceObject = Undefined, sourcePropertyName = Undefined, destinationPropertyValue = Undefined\<rparr>"

definition createMapForSourceMember :: "mapping \<Rightarrow> string \<Rightarrow> valueOrFunction \<Rightarrow> error + mapping" where
  "createMapForSourceMember mapping source sourceMemberConfigFunction =
     (case sourceMemberConfigFunction of
        Value v \<Rightarrow> Inl InvalidConfiguration
      | Function f \<Rightarrow>
          (let (calls, result) = f sourceMemberOptions in
           case sourceMemberCalls calls False of
             Inl e \<Rightarrow> Inl e
           | Inr ignored \<Rightarrow>
               (case result of
                  Throw e \<Rightarrow> Inl e
                | Return r \<Rightarrow>
                    (case map_of (forMemberMappings mapping) source of
                       Some memberMapping \<Rightarrow>
                         Inr (mapping\<lparr>forMemberMappings :=
                           AList.update source
                             (if ignored
                              then memberMapping\<lparr>ignore := True, mappingValuesAndFunctions := []\<rparr>
                              else memberMapping\<lparr>mappingValuesAndFunctions :=
                                     mappingValuesAndFunctions memberMapping @ [Function f]\<rparr>)
                             (forMemberMappings mapping)\<rparr>)
                     | None \<Rightarrow>
                         if inherited source then
                           (if ignored then Inr mapping else Inl TypeError)
                         else
                           Inr (mapping\<lparr>forMemberMappings :=
                             AList.update source
                               \<lparr>sourceProperty = source,
                                destinationProperty = (if ignored then None else Some source),
                                mappingValuesAndFunctions = [Function f],
                                ignore = ignored,
                                conditionFunction = None\<rparr>
                               (forMemberMappings mapping)\<rparr>)))))"

subsection \<open>forAllMembers, convertToType, convertUsing\<close>

definition createMapForAllMembers :: "mapping \<Rightarrow> allMembersFunc \<Rightarrow> mapping" where
  "createMapForAllMembers mapping func =
     mapping\<lparr>forAllMemberMappings := forAllMemberMappings mapping @ [func]\<rparr>"

definition createMapConvertToType :: "mapping \<Rightarrow> typeClass \<Rightarrow> mapping" where
  "createMapConvertToType mapping typeClass = mapping\<lparr>destinationTypeClass := Some typeClass\<rparr>"

text \<open>
  What convertUsing can be given. The numbers are what getFunctionParameters reads off the
  text of its argument (the names between the first opening and the first closing
  parenthesis): an input here, since the model has no program text. An instance of
  TypeConverter comes with its convert method and that method's number; a function or
  class with its number, what it does when called, and the convert method (with its number)
  of the instances it constructs, if they have one. Any other value comes with its number,
  or with none when taking its text raises (\<open>null\<close>, \<open>undefined\<close>): a value whose text
  yields one name (\<open>'abc'\<close>, \<open>true\<close>, \<open>55\<close>) is taken for the convert function and stored,
  and calling it at mapping time raises.
\<close>

datatype converterArgument =
    ConverterInstance nat typeConverterFunction
  | ConverterCallable nat typeConverterFunction "(nat \<times> typeConverterFunction) option"
  | NonCallable jsval "nat option"

definition notAFunction :: typeConverterFunction where
  "notAFunction resolutionContext = Inl TypeError"

definition createMapConvertUsing :: "mapping \<Rightarrow> converterArgument \<Rightarrow> error + mapping" where
  "createMapConvertUsing mapping typeConverterClassOrFunction =
     (case (case typeConverterClassOrFunction of
              ConverterInstance n convert \<Rightarrow> Inr (Some (n, convert))
            | ConverterCallable n f instanceConvert \<Rightarrow>
                if n = 1 then Inr (Some (n, f)) else Inr instanceConvert
            | NonCallable v None \<Rightarrow> Inl InvalidConfiguration
            | NonCallable v (Some n) \<Rightarrow>
                if n = 1 then (if truthy v then Inr (Some (n, notAFunction)) else Inr None)
                else Inl InvalidConfiguration) of
        Inl e \<Rightarrow> Inl e
      | Inr None \<Rightarrow> Inl InvalidConfiguration
      | Inr (Some (n, f)) \<Rightarrow>
          if n \<noteq> 1 then Inl InvalidConfiguration
          else Inr (mapping\<lparr>typeConverterFunction := Some f\<rparr>))"

subsection \<open>withProfile\<close>

text \<open>
  The mapping object stored under a key, if there is one. The profile store is read the same
  way; there an inherited member is refused like a missing profile, because its
  \<open>profileName\<close> is not the name asked for. The key under which withProfile looks for the
  staged definition contains \<open>=>\<close>, so it is never an inherited name.
\<close>

definition lookupMapping :: "automapper \<Rightarrow> string \<Rightarrow> mapping option" where
  "lookupMapping am mappingKey =
     (case map_of (mappings am) mappingKey of
        None \<Rightarrow> None
      | Some address \<Rightarrow> if address < length (objects am) then Some (objects am ! address) else None)"

text \<open>
  The loop over the profile's member mappings: a member of the live definition with the
  same destination is deleted under its own source property, and the profile's member is
  stored under the profile member's source property. Without such a member nothing is done.
  The code stores the staged member object itself, so that the two definitions share it from
  then on; the model stores its value, which is what the definition holds when withProfile
  returns.
\<close>

fun mergeMemberMappings :: "memberMapping list \<Rightarrow> mapping \<Rightarrow> mapping" where
  "mergeMemberMappings [] mapping = mapping"
| "mergeMemberMappings (profilePropertyMapping # rest) mapping =
     mergeMemberMappings rest
       (case createMapForMemberFindMember mapping (destinationProperty profilePropertyMapping) of
          Some existingPropertyMapping \<Rightarrow>
            mapping\<lparr>forMemberMappings :=
              AList.update (sourceProperty profilePropertyMapping) profilePropertyMapping
                (AList.delete (sourceProperty existingPropertyMapping) (forMemberMappings mapping))\<rparr>
        | None \<Rightarrow> mapping)"

definition profileKey :: "string \<Rightarrow> string \<Rightarrow> string" where
  "profileKey name key = name @ ''=>'' @ key"

definition createMapWithProfileMergeMappings :: "automapper \<Rightarrow> mapping \<Rightarrow> string \<Rightarrow> mapping" where
  "createMapWithProfileMergeMappings am mapping name =
     (case lookupMapping am (profileKey name (sourceKey mapping) @ profileKey name (destinationKey mapping)) of
        None \<Rightarrow> mapping
      | Some profileMapping \<Rightarrow>
          mergeMemberMappings (map snd (forMemberMappings profileMapping))
            (mapping\<lparr>forAllMemberMappings :=
                       forAllMemberMappings mapping @ forAllMemberMappings profileMapping,
                     typeConverterFunction :=
                       (case typeConverterFunction profileMapping of
                          Some f \<Rightarrow> Some f | None \<Rightarrow> typeConverterFunction mapping),
                     destinationTypeClass :=
                       (case destinationTypeClass profileMapping of
                          Some c \<Rightarrow> Some c | None \<Rightarrow> destinationTypeClass mapping)\<rparr>))"

definition createMapWithProfile :: "automapper \<Rightarrow> mapping \<Rightarrow> string \<Rightarrow> error + mapping" where
  "createMapWithProfile am mapping name =
     (case map_of (profiles am) name of
        None \<Rightarrow> Inl (ProfileNotFound name)
      | Some p \<Rightarrow>
          if profileName p \<noteq> name then Inl (ProfileNotFound name)
          else Inr (createMapWithProfileMergeMappings am (mapping\<lparr>profile := Some p\<rparr>) name))"

section \<open>Naming conventions\<close>

subsection \<open>String.prototype.split with a regular expression\<close>

definition substring :: "string \<Rightarrow> nat \<Rightarrow> nat \<Rightarrow> string" where
  "substring S from to = take (to - from) (drop from S)"

text \<open>
  The split loop of the language: \<open>p\<close> is where the current fragment starts, \<open>q\<close> where a
  match is tried. A match that ends at \<open>p\<close> is skipped; any other match closes the fragment
  and contributes its captured groups.
\<close>

function splitLoop :: "splittingExpression \<Rightarrow> string \<Rightarrow> nat \<Rightarrow> nat \<Rightarrow> string list" where
  "splitLoop R S p q =
     (if q < length S then
        (case R S q of
           None \<Rightarrow> splitLoop R S p (q + 1)
         | Some (len, captures) \<Rightarrow>
             (let e = min (q + len) (length S) in
              if e = p then splitLoop R S p (q + 1)
              else substring S p q # captures @ splitLoop R S e e))
      else [substring S p (length S)])"
  by pat_completeness auto
termination
  by (relation "measure (\<lambda>(R, S, p, q). 2 * (length S - q) + (if p = q then 0 else 1))")
     (auto split: if_splits)

declare splitLoop.simps [simp del]

definition split :: "string \<Rightarrow> splittingExpression \<Rightarrow> string list" where
  "split S R =
     (if S = [] then (case R S 0 of Some z \<Rightarrow> [] | None \<Rightarrow> [S])
      else splitLoop R S 0 0)"

subsection \<open>The two built-in conventions\<close>

definition lowerCase :: string where
  "lowerCase = ''abcdefghijklmnopqrstuvwxyz''"

definition upperCase :: string where
  "upperCase = ''ABCDEFGHIJKLMNOPQRSTUVWXYZ''"

definition digits :: string where
  "digits = ''0123456789''"

definition isLower :: "char \<Rightarrow> bool" where
  "isLower c = (c \<in> set lowerCase)"

definition isUpper :: "char \<Rightarrow> bool" where
  "isUpper c = (c \<in> set upperCase)"

definition isLowerOrDigit :: "char \<Rightarrow> bool" where
  "isLowerOrDigit c = (c \<in> set lowerCase \<or> c \<in> set digits)"

text \<open>toUpperCase and toLowerCase on one character (ASCII letters; others are left alone).\<close>

definition toUpperCase :: "char \<Rightarrow> char" where
  "toUpperCase c = (case map_of (zip lowerCase upperCase) c of Some u \<Rightarrow> u | None \<Rightarrow> c)"

definition toLowerCase :: "char \<Rightarrow> char" where
  "toLowerCase c = (case map_of (zip upperCase lowerCase) c of Some l \<Rightarrow> l | None \<Rightarrow> c)"

text \<open>
  The second alternative of both expressions, \<open>[A-Z]?[a-z0-9]+\<close>, tried at the start of
  \<open>rest\<close>: the length matched.
\<close>

definition matchWord :: "string \<Rightarrow> nat option" where
  "matchWord rest =
     (case rest of
        [] \<Rightarrow> None
      | c # cs \<Rightarrow>
          if isUpper c \<and> takeWhile isLowerOrDigit cs \<noteq> []
          then Some (1 + length (takeWhile isLowerOrDigit cs))
          else if takeWhile isLowerOrDigit rest \<noteq> []
          then Some (length (takeWhile isLowerOrDigit rest))
          else None)"

text \<open>The lookahead \<open>(?=$|[A-Z]{1}[a-z0-9]+)\<close> at the start of \<open>rest\<close>.\<close>

definition lookahead :: "string \<Rightarrow> bool" where
  "lookahead rest =
     (case rest of
        [] \<Rightarrow> True
      | c # cs \<Rightarrow> isUpper c \<and> (case cs of [] \<Rightarrow> False | d # ds \<Rightarrow> isLowerOrDigit d))"

text \<open>
  \<open>^[a-z]+(?=...)\<close>: the longest run of lower-case letters; a shorter run is followed by a
  lower-case letter, where the lookahead fails.
\<close>

definition matchCamelHead :: "string \<Rightarrow> nat option" where
  "matchCamelHead S =
     (let n = length (takeWhile isLower S)
      in if 0 < n \<and> lookahead (drop n S) then Some n else None)"

text \<open>
  \<open>^[A-Z]+(?=...)\<close>: the longest run of upper-case letters if it ends the string; else the
  run without its last letter, when that leaves a letter and a lower-case letter or digit
  follows the run. Shorter runs are followed by two upper-case letters.
\<close>

definition matchPascalHead :: "string \<Rightarrow> nat option" where
  "matchPascalHead S =
     (let n = length (takeWhile isUpper S)
      in if 0 < n \<and> lookahead (drop n S) then Some n
         else if 1 < n \<and> lookahead (drop (n - 1) S) then Some (n - 1)
         else None)"

definition withHead :: "(string \<Rightarrow> nat option) \<Rightarrow> splittingExpression" where
  "withHead head S q =
     (case (if q = 0 then head S else None) of
        Some n \<Rightarrow> Some (n, [substring S q (q + n)])
      | None \<Rightarrow>
          (case matchWord (drop q S) of
             Some n \<Rightarrow> Some (n, [substring S q (q + n)])
           | None \<Rightarrow> None))"

definition camelCaseSplittingExpression :: splittingExpression where
  "camelCaseSplittingExpression = withHead matchCamelHead"

definition pascalCaseSplittingExpression :: splittingExpression where
  "pascalCaseSplittingExpression = withHead matchPascalHead"

definition capitalize :: "string \<Rightarrow> string" where
  "capitalize part = (case part of [] \<Rightarrow> [] | c # cs \<Rightarrow> toUpperCase c # cs)"

definition uncapitalize :: "string \<Rightarrow> string" where
  "uncapitalize part = (case part of [] \<Rightarrow> [] | c # cs \<Rightarrow> toLowerCase c # cs)"

definition camelCaseTransformPropertyName :: "string list \<Rightarrow> error + string" where
  "camelCaseTransformPropertyName sourcePropertyNameParts =
     Inr (case sourcePropertyNameParts of
            [] \<Rightarrow> []
          | first # others \<Rightarrow> uncapitalize first @ concat (map capitalize others))"

definition pascalCaseTransformPropertyName :: "string list \<Rightarrow> error + string" where
  "pascalCaseTransformPropertyName sourcePropertyNameParts =
     Inr (concat (map capitalize sourcePropertyNameParts))"

definition CamelCaseNamingConvention :: namingConvention where
  "CamelCaseNamingConvention =
     \<lparr>splittingExpression = camelCaseSplittingExpression,
      transformPropertyName = camelCaseTransformPropertyName\<rparr>"

definition PascalCaseNamingConvention :: namingConvention where
  "PascalCaseNamingConvention =
     \<lparr>splittingExpression = pascalCaseSplittingExpression,
      transformPropertyName = pascalCaseTransformPropertyName\<rparr>"

subsection \<open>mapGetDestinationPropertyName\<close>

text \<open>
  Everything is inside one try block: a convention that is missing, or a transform that
  throws, gives the source property name back.
\<close>

definition mapGetDestinationPropertyName :: "profile \<Rightarrow> string \<Rightarrow> string" where
  "mapGetDestinationPropertyName p name =
     (case sourceMemberNamingConvention p of
        None \<Rightarrow> name
      | Some sourceConvention \<Rightarrow>
          (let sourcePropertyNameParts =
                 filter (\<lambda>part. part \<noteq> []) (split name (splittingExpression sourceConvention))
           in case destinationMemberNamingConvention p of
                None \<Rightarrow> name
              | Some destinationConvention \<Rightarrow>
                  (case transformPropertyName destinationConvention sourcePropertyNameParts of
                     Inl e \<Rightarrow> name
                   | Inr destinationPropertyName \<Rightarrow> destinationPropertyName)))"

section \<open>Mapping execution\<close>

function showNat :: "nat \<Rightarrow> string" where
  "showNat n = (if n < 10 then [digits ! n] else showNat (n div 10) @ [digits ! (n mod 10)])"
  by pat_completeness auto
termination
  by (relation "measure id") auto

declare showNat.simps [simp del]

text \<open>
  What \<open>for (var name in sourceObject)\<close> visits, with \<open>sourceObject[name]\<close>: the properties
  of an object, the indices of an array or of a string; nothing for the other values,
  \<open>null\<close> and \<open>undefined\<close> included.
\<close>

fun ownProperties :: "jsval \<Rightarrow> (string \<times> jsval) list" where
  "ownProperties (Obj c members) = members"
| "ownProperties (Arr xs) = zip (map showNat [0..<length xs]) xs"
| "ownProperties (Str s) = zip (map showNat [0..<length s]) (map (\<lambda>c. Str [c]) s)"
| "ownProperties v = []"

text \<open>
  \<open>destinationObject[name] = value\<close>; the destination is an object. Assigning to
  \<open>__proto__\<close> goes to the inherited setter and gives the object no property of its own.
\<close>

fun setProperty :: "jsval \<Rightarrow> string \<Rightarrow> jsval \<Rightarrow> jsval" where
  "setProperty (Obj c members) name v =
     (if name = ''__proto__'' then Obj c members else Obj c (AList.update name v members))"
| "setProperty other name v = other"

text \<open>mapSetValue: the forAllMembers functions in order if there are any, else the assignment.\<close>

fun callAll :: "allMembersFunc list \<Rightarrow> jsval \<Rightarrow> string \<Rightarrow> jsval \<Rightarrow> error + jsval" where
  "callAll [] destinationObject name v = Inr destinationObject"
| "callAll (f # fs) destinationObject name v =
     (case f destinationObject name v of
        Inl e \<Rightarrow> Inl e
      | Inr destinationObject' \<Rightarrow> callAll fs destinationObject' name v)"

definition mapSetValue :: "mapping \<Rightarrow> jsval \<Rightarrow> string \<Rightarrow> jsval \<Rightarrow> error + jsval" where
  "mapSetValue mapping destinationObject name v =
     (if forAllMemberMappings mapping \<noteq> []
      then callAll (forAllMemberMappings mapping) destinationObject name v
      else Inr (setProperty destinationObject name v))"

text \<open>
  A member function at mapping time: mapFrom and condition are stubs that do nothing,
  ignore is \<open>undefined\<close>, so calling it raises.
\<close>

definition callAtRuntime :: "memberFunc \<Rightarrow> optsData \<Rightarrow> error + jsval" where
  "callAtRuntime f memberConfigurationOptions =
     (let (calls, result) = f memberConfigurationOptions
      in if CallIgnore \<in> set calls then Inl TypeError
         else (case result of Throw e \<Rightarrow> Inl e | Return v \<Rightarrow> Inr v))"

fun foldValuesAndFunctions :: "valueOrFunction list \<Rightarrow> optsData \<Rightarrow> error + jsval" where
  "foldValuesAndFunctions [] memberConfigurationOptions =
     Inr (destinationPropertyValue memberConfigurationOptions)"
| "foldValuesAndFunctions (Value v # rest) memberConfigurationOptions =
     foldValuesAndFunctions rest (memberConfigurationOptions\<lparr>destinationPropertyValue := v\<rparr>)"
| "foldValuesAndFunctions (Function f # rest) memberConfigurationOptions =
     (case callAtRuntime f memberConfigurationOptions of
        Inl e \<Rightarrow> Inl e
      | Inr v \<Rightarrow>
          foldValuesAndFunctions rest
            (if v = Undefined then memberConfigurationOptions
             else memberConfigurationOptions\<lparr>destinationPropertyValue := v\<rparr>))"

definition propertyName :: "string option \<Rightarrow> string" where
  "propertyName name = (case name of Some n \<Rightarrow> n | None \<Rightarrow> ''undefined'')"

text \<open>
  mapProperty. With no member stored under the source property name, an inherited name
  still reads a truthy member; that one has no ignore flag, no condition and no sequence,
  and taking the length of its sequence raises. (After forSourceMember has ignored such a
  name the shared function carries the flag and the property is skipped instead; see there.)
\<close>

definition mapProperty :: "mapping \<Rightarrow> jsval \<Rightarrow> string \<Rightarrow> jsval \<Rightarrow> jsval \<Rightarrow> error + jsval" where
  "mapProperty mapping source name raw destinationObject =
     (case map_of (forMemberMappings mapping) name of
        Some propertyMapping \<Rightarrow>
          if ignore propertyMapping then Inr destinationObject
          else
            (case (case conditionFunction propertyMapping of
                     None \<Rightarrow> Inr True
                   | Some condition \<Rightarrow>
                       (case condition source of
                          Inl e \<Rightarrow> Inl e
                        | Inr met \<Rightarrow> Inr (met \<noteq> Bool False))) of
               Inl e \<Rightarrow> Inl e
             | Inr False \<Rightarrow> Inr destinationObject
             | Inr True \<Rightarrow>
                 (case foldValuesAndFunctions (mappingValuesAndFunctions propertyMapping)
                         \<lparr>sourceObject = source, sourcePropertyName = Str name,
                          destinationPropertyValue = raw\<rparr> of
                    Inl e \<Rightarrow> Inl e
                  | Inr v \<Rightarrow>
                      mapSetValue mapping destinationObject
                        (propertyName (destinationProperty propertyMapping)) v))
      | None \<Rightarrow>
          if inherited name then Inl TypeError
          else
            mapSetValue mapping destinationObject
              (case profile mapping of
                 Some p \<Rightarrow> mapGetDestinationPropertyName p name
               | None \<Rightarrow> name)
              raw)"

fun mapProperties :: "mapping \<Rightarrow> jsval \<Rightarrow> (string \<times> jsval) list \<Rightarrow> jsval \<Rightarrow> error + jsval" where
  "mapProperties mapping source [] destinationObject = Inr destinationObject"
| "mapProperties mapping source ((name, v) # rest) destinationObject =
     (case mapProperty mapping source name v destinationObject of
        Inl e \<Rightarrow> Inl e
      | Inr destinationObject' \<Rightarrow> mapProperties mapping source rest destinationObject')"

definition newDestination :: "mapping \<Rightarrow> jsval" where
  "newDestination mapping =
     (case destinationTypeClass mapping of Some c \<Rightarrow> new c | None \<Rightarrow> emptyObject)"

text \<open>
  mapItem; the array index it is given is not used by its body. The loop asks
  \<open>sourceObject.hasOwnProperty(name)\<close> first: a source with a property of its own called
  \<open>hasOwnProperty\<close> has a value there that cannot be called, and the loop raises at once.
\<close>

definition mapItem :: "mapping \<Rightarrow> jsval \<Rightarrow> error + jsval" where
  "mapItem mapping source =
     (let destinationObject = newDestination mapping
      in case typeConverterFunction mapping of
           Some convert \<Rightarrow> convert \<lparr>sourceValue = source, destinationValue = destinationObject\<rparr>
         | None \<Rightarrow>
             if ''hasOwnProperty'' \<in> set (map fst (ownProperties source)) then Inl TypeError
             else mapProperties mapping source (ownProperties source) destinationObject)"

function mapArrayFrom :: "mapping \<Rightarrow> jsval list \<Rightarrow> nat \<Rightarrow> jsval list \<Rightarrow> error + jsval list" where
  "mapArrayFrom mapping sourceArray index destinationArray =
     (if index < length sourceArray then
        (case mapItem mapping (sourceArray ! index) of
           Inl e \<Rightarrow> Inl e
         | Inr destinationObject \<Rightarrow>
             mapArrayFrom mapping sourceArray (index + 1)
               (if truthy destinationObject then destinationArray @ [destinationObject]
                else destinationArray))
      else Inr destinationArray)"
  by pat_completeness auto
termination
  by (relation "measure (\<lambda>(mapping, sourceArray, index, destinationArray). length sourceArray - index)")
     auto

declare mapArrayFrom.simps [simp del]

definition mapArray :: "mapping \<Rightarrow> jsval list \<Rightarrow> error + jsval" where
  "mapArray mapping sourceArray =
     (case mapArrayFrom mapping sourceArray 0 [] of
        Inl e \<Rightarrow> Inl e
      | Inr destinationArray \<Rightarrow> Inr (Arr destinationArray))"

text \<open>
  What mapItem and mapArray do when the "mapping" is a member inherited by the registry: it
  has no destination class and no converter, so the destination is the empty object, and
  its \<open>forMemberMappings\<close> is \<open>undefined\<close>, so the first property of the source raises.
\<close>

definition mapItemInherited :: "jsval \<Rightarrow> error + jsval" where
  "mapItemInherited source = (if ownProperties source = [] then Inr emptyObject else Inl TypeError)"

fun mapArrayInherited :: "jsval list \<Rightarrow> jsval list \<Rightarrow> error + jsval list" where
  "mapArrayInherited [] destinationArray = Inr destinationArray"
| "mapArrayInherited (sourceObj # rest) destinationArray =
     (case mapItemInherited sourceObj of
        Inl e \<Rightarrow> Inl e
      | Inr destinationObject \<Rightarrow>
          mapArrayInherited rest
            (if truthy destinationObject then destinationArray @ [destinationObject]
             else destinationArray))"

text \<open>
  map, once all three arguments are there. The error is raised when nothing truthy is read
  under the key, which an inherited name escapes.
\<close>

definition mapWith :: "automapper \<Rightarrow> string \<Rightarrow> string \<Rightarrow> jsval \<Rightarrow> error + jsval" where
  "mapWith am source destination sourceObj =
     (case lookupMapping am (source @ destination) of
        None \<Rightarrow>
          if inherited (source @ destination) then
            (case sourceObj of
               Arr sourceArray \<Rightarrow>
                 (case mapArrayInherited sourceArray [] of
                    Inl e \<Rightarrow> Inl e
                  | Inr destinationArray \<Rightarrow> Inr (Arr destinationArray))
             | other \<Rightarrow> mapItemInherited sourceObj)
          else Inl (MappingNotFound source destination)
      | Some mapping \<Rightarrow>
          (case sourceObj of
             Arr sourceArray \<Rightarrow> mapArray mapping sourceArray
           | other \<Rightarrow> mapItem mapping sourceObj))"

section \<open>The registry and the curried entry points\<close>

text \<open>
  The keys are strings, as the parameters are declared; for another value the key string
  is not modelled.
\<close>

fun keyString :: "jsval \<Rightarrow> string" where
  "keyString (Str s) = s"
| "keyString other = []"

text \<open>createMap with both keys: a new mapping object, stored under the concatenated key.\<close>

definition newMapping :: "string \<Rightarrow> string \<Rightarrow> mapping" where
  "newMapping source destination =
     \<lparr>sourceKey = source, destinationKey = destination,
      forAllMemberMappings = [], forMemberMappings = [],
      typeConverterFunction = None, destinationTypeClass = None, profile = None\<rparr>"

definition createMapWith :: "automapper \<Rightarrow> string \<Rightarrow> string \<Rightarrow> nat \<times> automapper" where
  "createMapWith am source destination =
     (length (objects am),
      am\<lparr>mappings := AList.update (source @ destination) (length (objects am)) (mappings am),
         objects := objects am @ [newMapping source destination]\<rparr>)"

subsection \<open>handleCurrying\<close>

datatype curriedFunc = CreateMapFunc | MapFunc

fun funcLength :: "curriedFunc \<Rightarrow> nat" where
  "funcLength CreateMapFunc = 2"
| "funcLength MapFunc = 3"

text \<open>
  The function that handleCurrying returns: the function to call in the end, the address
  of the array of arguments provided so far, and the number still to come.
\<close>

datatype closure = Closure curriedFunc nat int

datatype accumulated = Apply "jsval list" | Later closure

datatype result = ChainHandle nat | Returned jsval | Callable closure | Thrown error

text \<open>
  accumulator: the new arguments are pushed onto the array at \<open>address\<close>, and the counter
  goes down with each of them; the test then subtracts their number once more. \<open>Apply\<close>
  stands for \<open>func.apply(closure, alreadyProvidedArgs)\<close>, which the caller below performs;
  the two assignments after it change local variables that are not read again.
\<close>

definition accumulator :: "curriedFunc \<Rightarrow> jsval list \<Rightarrow> nat \<Rightarrow> int \<Rightarrow> automapper
    \<Rightarrow> accumulated \<times> automapper" where
  "accumulator f moreArgs address stillToCome am =
     (let alreadyProvidedArgs = arrays am ! address @ moreArgs;
          am' = am\<lparr>arrays := (arrays am)[address := alreadyProvidedArgs]\<rparr>;
          stillToCome' = stillToCome - int (length moreArgs)
      in if stillToCome' - int (length moreArgs) \<le> 0 then (Apply alreadyProvidedArgs, am')
         else (Later (Closure f address stillToCome'), am'))"

definition handleCurrying :: "curriedFunc \<Rightarrow> jsval list \<Rightarrow> automapper \<Rightarrow> accumulated \<times> automapper" where
  "handleCurrying f args am =
     accumulator f [] (length (arrays am)) (int (funcLength f) - int (length args))
       (am\<lparr>arrays := arrays am @ [args]\<rparr>)"

text \<open>
  createMap and map as they are called, with any number of arguments: with too few they
  hand over to handleCurrying, else they run their body on the first two or three.
\<close>

function applyFunc :: "curriedFunc \<Rightarrow> jsval list \<Rightarrow> automapper \<Rightarrow> result \<times> automapper" where
  "applyFunc f args am =
     (if length args < funcLength f then
        (case handleCurrying f args am of
           (Apply alreadyProvidedArgs, am') \<Rightarrow> applyFunc f alreadyProvidedArgs am'
         | (Later c, am') \<Rightarrow> (Callable c, am'))
      else
        (case f of
           CreateMapFunc \<Rightarrow>
             (case createMapWith am (keyString (args ! 0)) (keyString (args ! 1)) of
                (handle, am') \<Rightarrow> (ChainHandle handle, am'))
         | MapFunc \<Rightarrow>
             (case mapWith am (keyString (args ! 0)) (keyString (args ! 1)) (args ! 2) of
                Inl e \<Rightarrow> (Thrown e, am)
              | Inr v \<Rightarrow> (Returned v, am))))"
  by pat_completeness auto
termination
  by (relation "{}") (auto simp: handleCurrying_def accumulator_def Let_def split: if_splits)

declare applyFunc.simps [simp del]

definition createMap :: "jsval list \<Rightarrow> automapper \<Rightarrow> result \<times> automapper" where
  "createMap args am = applyFunc CreateMapFunc args am"

definition mapFunction :: "jsval list \<Rightarrow> automapper \<Rightarrow> result \<times> automapper" where
  "mapFunction args am = applyFunc MapFunc args am"

text \<open>
  Calling the returned function: the accumulator runs on a copy (\<open>slice(0)\<close>) of the array
  the function holds.
\<close>

definition invoke :: "closure \<Rightarrow> jsval list \<Rightarrow> automapper \<Rightarrow> result \<times> automapper" where
  "invoke c moreArgs am =
     (case c of
        Closure f address stillToCome \<Rightarrow>
          (case accumulator f moreArgs (length (arrays am)) stillToCome
                  (am\<lparr>arrays := arrays am @ [arrays am ! address]\<rparr>) of
             (Apply alreadyProvidedArgs, am') \<Rightarrow> applyFunc f alreadyProvidedArgs am'
           | (Later c', am') \<Rightarrow> (Callable c', am')))"

subsection \<open>The chain handle\<close>

definition forMember :: "nat \<Rightarrow> string \<Rightarrow> valueOrFunction \<Rightarrow> automapper \<Rightarrow> automapper" where
  "forMember handle dest valueOrFunction am =
     am\<lparr>objects := (objects am)[handle := createMapForMember (objects am ! handle) dest valueOrFunction]\<rparr>"

definition forSourceMember :: "nat \<Rightarrow> string \<Rightarrow> valueOrFunction \<Rightarrow> automapper \<Rightarrow> error + automapper" where
  "forSourceMember handle source configFunction am =
     (case createMapForSourceMember (objects am ! handle) source configFunction of
        Inl e \<Rightarrow> Inl e
      | Inr mapping \<Rightarrow> Inr (am\<lparr>objects := (objects am)[handle := mapping]\<rparr>))"

definition forAllMembers :: "nat \<Rightarrow> allMembersFunc \<Rightarrow> automapper \<Rightarrow> automapper" where
  "forAllMembers handle f am =
     am\<lparr>objects := (objects am)[handle := createMapForAllMembers (objects am ! handle) f]\<rparr>"

definition convertToType :: "nat \<Rightarrow> typeClass \<Rightarrow> automapper \<Rightarrow> automapper" where
  "convertToType handle typeClass am =
     am\<lparr>objects := (objects am)[handle := createMapConvertToType (objects am ! handle) typeClass]\<rparr>"

definition convertUsing :: "nat \<Rightarrow> converterArgument \<Rightarrow> automapper \<Rightarrow> error + automapper" where
  "convertUsing handle typeConverterClassOrFunction am =
     (case createMapConvertUsing (objects am ! handle) typeConverterClassOrFunction of
        Inl e \<Rightarrow> Inl e
      | Inr mapping \<Rightarrow> Inr (am\<lparr>objects := (objects am)[handle := mapping]\<rparr>))"

definition withProfile :: "nat \<Rightarrow> string \<Rightarrow> automapper \<Rightarrow> error + automapper" where
  "withProfile handle name am =
     (case createMapWithProfile am (objects am ! handle) name of
        Inl e \<Rightarrow> Inl e
      | Inr mapping \<Rightarrow> Inr (am\<lparr>objects := (objects am)[handle := mapping]\<rparr>))"

subsection \<open>Profiles\<close>

text \<open>Profile.createMap: every argument that is there gets the prefix \<open>profileName=>\<close>.\<close>

definition profileCreateMap :: "string \<Rightarrow> jsval list \<Rightarrow> automapper \<Rightarrow> result \<times> automapper" where
  "profileCreateMap name args am =
     createMap (map (\<lambda>a. if truthy a then Str (profileKey name (keyString a)) else a) args) am"

text \<open>addProfile: the configure hook runs, then the profile is stored under its name.\<close>

definition addProfile :: "profile \<Rightarrow> (automapper \<Rightarrow> automapper) \<Rightarrow> automapper \<Rightarrow> automapper" where
  "addProfile p configure am =
     (let am' = configure am
      in am'\<lparr>profiles := AList.update (profileName p) p (profiles am')\<rparr>)"

section \<open>Notions and example configurations used in the properties\<close>

text \<open>\<open>createMap('a', 'b')\<close> on the fresh singleton.\<close>

definition registered :: automapper where
  "registered = snd (createMap [Str ''a'', Str ''b''] initial)"

text \<open>
  \<open>createMap('a', 'b')\<close>, \<open>forMember('x', 1)\<close> and then
  \<open>convertUsing(ctx => ({fixed: true}))\<close>.
\<close>

definition fixedConverter :: typeConverterFunction where
  "fixedConverter ctx = Inr (Obj None [(''fixed'', Bool True)])"

definition converting :: automapper where
  "converting =
     (case createMap [Str ''a'', Str ''b''] initial of
        (ChainHandle h, am) \<Rightarrow>
          (case convertUsing h (ConverterCallable 1 fixedConverter None)
                  (forMember h ''x'' (Value (Num 1)) am) of
             Inr am' \<Rightarrow> am'
           | Inl e \<Rightarrow> am)
      | (other, am) \<Rightarrow> am)"

text \<open>
  \<open>createMap('a', 'b')\<close> with a converter that returns \<open>undefined\<close> for a negative number
  and its source value otherwise.
\<close>

definition sometimes :: typeConverterFunction where
  "sometimes ctx =
     Inr (case sourceValue ctx of Num n \<Rightarrow> if n < 0 then Undefined else Num n | v \<Rightarrow> v)"

definition sieve :: automapper where
  "sieve =
     (case createMap [Str ''a'', Str ''b''] initial of
        (ChainHandle h, am) \<Rightarrow>
          (case convertUsing h (ConverterCallable 1 sometimes None) am of
             Inr am' \<Rightarrow> am'
           | Inl e \<Rightarrow> am)
      | (other, am) \<Rightarrow> am)"

text \<open>
  \<open>createMap('ab', 'c').forMember('x', 1)\<close>, and then \<open>createMap('a', 'bc')\<close> for another
  pair of keys.
\<close>

definition configured :: automapper where
  "configured =
     (case createMap [Str ''ab'', Str ''c''] initial of
        (ChainHandle h, am) \<Rightarrow> forMember h ''x'' (Value (Num 1)) am
      | (other, am) \<Rightarrow> am)"

definition overwritten :: automapper where
  "overwritten = snd (createMap [Str ''a'', Str ''bc''] configured)"

text \<open>The pairs of keys that createMap has been called with.\<close>

definition registeredPairs :: "automapper \<Rightarrow> (string \<times> string) list" where
  "registeredPairs am = map (\<lambda>m. (sourceKey m, destinationKey m)) (objects am)"

text \<open>Two callbacks: \<open>opts => opts.ignore()\<close> and \<open>opts => {}\<close>.\<close>

definition ignoring :: memberFunc where
  "ignoring opts = ([CallIgnore], Return Undefined)"

definition nothing :: memberFunc where
  "nothing opts = ([], Return Undefined)"

text \<open>Of each member: its key, its ignore flag and the length of its sequence.\<close>

definition memberSummary :: "mapping \<Rightarrow> (string \<times> bool \<times> nat) list" where
  "memberSummary mapping =
     map (\<lambda>(k, m). (k, ignore m, length (mappingValuesAndFunctions m))) (forMemberMappings mapping)"




text \<open>The two profiles of the tests, once their configure hooks have set the conventions.\<close>

definition camelToPascal :: profile where
  "camelToPascal =
     \<lparr>profileName = ''CamelCaseToPascalCase'',
      sourceMemberNamingConvention = Some CamelCaseNamingConvention,
      destinationMemberNamingConvention = Some PascalCaseNamingConvention\<rparr>"

definition pascalToCamel :: profile where
  "pascalToCamel =
     \<lparr>profileName = ''PascalCaseToCamelCase'',
      sourceMemberNamingConvention = Some PascalCaseNamingConvention,
      destinationMemberNamingConvention = Some CamelCaseNamingConvention\<rparr>"

text \<open>
  \<open>addProfile(new CamelCaseToPascalCaseMappingProfile())\<close>, then
  \<open>createMap('CamelCase2', 'PascalCase2').withProfile('CamelCaseToPascalCase')\<close>.
\<close>

definition named :: automapper where
  "named =
     (case createMap [Str ''CamelCase2'', Str ''PascalCase2'']
             (addProfile camelToPascal (\<lambda>am. am) initial) of
        (ChainHandle h, am) \<Rightarrow>
          (case withProfile h ''CamelCaseToPascalCase'' am of
             Inr am' \<Rightarrow> am'
           | Inl e \<Rightarrow> am)
      | (other, am) \<Rightarrow> am)"

text \<open>The mapper without the store of argument arrays.\<close>

definition registry :: "automapper \<Rightarrow> (string \<times> profile) list \<times> (string \<times> nat) list \<times> mapping list" where
  "registry am = (profiles am, mappings am, objects am)"

text \<open>
  A returned function \<open>c\<close> captures the arguments \<open>prefix\<close> for \<open>f\<close>: its array holds them,
  and its counter is what \<open>f\<close> still lacks.
\<close>

definition captures :: "closure \<Rightarrow> curriedFunc \<Rightarrow> jsval list \<Rightarrow> automapper \<Rightarrow> bool" where
  "captures c f prefix am =
     (case c of
        Closure g address stillToCome \<Rightarrow>
          g = f \<and> stillToCome = int (funcLength f) - int (length prefix)
          \<and> address < length (arrays am) \<and> arrays am ! address = prefix)"


text \<open>\<open>opts => opts.mapFrom(name)\<close>.\<close>

definition mappedFrom :: "string \<Rightarrow> memberFunc" where
  "mappedFrom name opts = ([CallMapFrom name], Return Undefined)"

text \<open>Of each member: its key and its destination property.\<close>

definition memberDestinations :: "mapping \<Rightarrow> (string \<times> string option) list" where
  "memberDestinations mapping =
     map (\<lambda>(k, m). (k, destinationProperty m)) (forMemberMappings mapping)"

text \<open>A profile \<open>P\<close> without naming conventions.\<close>

definition profileP :: profile where
  "profileP = \<lparr>profileName = ''P'', sourceMemberNamingConvention = None,
               destinationMemberNamingConvention = None\<rparr>"

text \<open>
  The configure hook of \<open>P\<close> does \<open>this.createMap('S', 'D')\<close> and then
  \<open>forMember('y', opts => opts.mapFrom('a')).forMember('x', opts => opts.mapFrom('c'))\<close>;
  after \<open>addProfile(P)\<close> the definition itself is made by \<open>createMap('S', 'D')\<close> and
  \<open>forMember('x', opts => opts.mapFrom('a')).forMember('y', opts => opts.mapFrom('b'))\<close>.
\<close>

definition configureClash :: "automapper \<Rightarrow> automapper" where
  "configureClash am =
     (case profileCreateMap ''P'' [Str ''S'', Str ''D''] am of
        (ChainHandle h, am') \<Rightarrow>
          forMember h ''x'' (Function (mappedFrom ''c''))
            (forMember h ''y'' (Function (mappedFrom ''a'')) am')
      | (other, am') \<Rightarrow> am')"

definition clash :: automapper where
  "clash =
     (case createMap [Str ''S'', Str ''D''] (addProfile profileP configureClash initial) of
        (ChainHandle h, am) \<Rightarrow>
          forMember h ''y'' (Function (mappedFrom ''b''))
            (forMember h ''x'' (Function (mappedFrom ''a'')) am)
      | (other, am) \<Rightarrow> am)"

text \<open>The same, with the two forMember calls of the profile in the other order.\<close>

definition configureSwapped :: "automapper \<Rightarrow> automapper" where
  "configureSwapped am =
     (case profileCreateMap ''P'' [Str ''S'', Str ''D''] am of
        (ChainHandle h, am') \<Rightarrow>
          forMember h ''y'' (Function (mappedFrom ''a''))
            (forMember h ''x'' (Function (mappedFrom ''c'')) am')
      | (other, am') \<Rightarrow> am')"

definition swapped :: automapper where
  "swapped =
     (case createMap [Str ''S'', Str ''D''] (addProfile profileP configureSwapped initial) of
        (ChainHandle h, am) \<Rightarrow>
          forMember h ''y'' (Function (mappedFrom ''b''))
            (forMember h ''x'' (Function (mappedFrom ''a'')) am)
      | (other, am) \<Rightarrow> am)"

section \<open>Properties\<close>

subsection \<open>Calls with all arguments\<close>

lemma applyFunc_map_full:
  "applyFunc MapFunc (s # d # x # rest) am =
     ((case mapWith am (keyString s) (keyString d) x of Inl e \<Rightarrow> Thrown e | Inr v \<Rightarrow> Returned v), am)"
  by (simp add: applyFunc.simps split: sum.splits)

lemma applyFunc_createMap_full:
  "applyFunc CreateMapFunc (s # d # rest) am =
     (ChainHandle (length (objects am)), snd (createMapWith am (keyString s) (keyString d)))"
  by (simp add: applyFunc.simps createMapWith_def)

lemma registered_eq:
  "registered =
     \<lparr>profiles = [], mappings = [(''ab'', 0)], objects = [newMapping ''a'' ''b''], arrays = []\<rparr>"
  by (simp add: registered_def createMap_def applyFunc_createMap_full createMapWith_def initial_def)

lemma converting_lookup:
  "lookupMapping converting ''ab'' =
     Some ((createMapForMember (newMapping ''a'' ''b'') ''x'' (Value (Num 1)))
             \<lparr>typeConverterFunction := Some fixedConverter\<rparr>)"
  by (simp add: converting_def createMap_def applyFunc_createMap_full createMapWith_def initial_def
      convertUsing_def forMember_def createMapConvertUsing_def lookupMapping_def)

subsection \<open>A source that is null or undefined\<close>

lemma mapItem_no_properties:
  "typeConverterFunction mapping = None \<Longrightarrow> ownProperties src = [] \<Longrightarrow>
     mapItem mapping src = Inr (newDestination mapping)"
  by (simp add: mapItem_def)

text \<open>
  C10. For a registered definition without a type converter, map on a source that is null
  or undefined does not raise: it returns the destination as constructed (an instance of
  the destination class if one is registered, else the empty object), with nothing copied
  onto it, and leaves the mapper as it was.
\<close>

theorem map_null_source:
  assumes "lookupMapping am (source @ destination) = Some mapping"
    and "typeConverterFunction mapping = None"
    and "src = Null \<or> src = Undefined"
  shows "mapFunction [Str source, Str destination, src] am =
           (Returned (case destinationTypeClass mapping of
                        Some c \<Rightarrow> new c
                      | None \<Rightarrow> Obj None []), am)"
proof -
  from assms(3) have "ownProperties src = []" by auto
  with assms(2) have "mapItem mapping src = Inr (newDestination mapping)"
    by (rule mapItem_no_properties[rotated -1, rotated])
  moreover from assms(3) have "\<And>xs. src \<noteq> Arr xs" by auto
  ultimately have "mapWith am source destination src = Inr (newDestination mapping)"
    using assms(1) by (auto simp: mapWith_def split: jsval.splits)
  then show ?thesis
    by (simp add: mapFunction_def applyFunc_map_full newDestination_def emptyObject_def
        split: option.splits)
qed

theorem map_null_source_witness:
  "lookupMapping registered (''a'' @ ''b'') = Some (newMapping ''a'' ''b'')
   \<and> typeConverterFunction (newMapping ''a'' ''b'') = None
   \<and> mapFunction [Str ''a'', Str ''b'', Null] registered = (Returned (Obj None []), registered)"
  using map_null_source [of registered "''a''" "''b''" "newMapping ''a'' ''b''" Null]
  by (simp add: registered_eq lookupMapping_def newMapping_def)

subsection \<open>Type converters\<close>

text \<open>
  C5. For a registered definition with a type converter and a source that is not an array,
  map constructs the destination (an instance of the destination class if one is
  registered, else the empty object), calls the converter on the context made of the
  source and that destination, and returns what the converter returns (or raises what it
  raises). Nothing else of the definition enters the result: member mappings, conditions,
  the profile and the forAllMembers functions do not occur on the right-hand side.
\<close>

theorem map_converter:
  assumes "lookupMapping am (source @ destination) = Some mapping"
    and "typeConverterFunction mapping = Some convert"
    and "\<forall>xs. src \<noteq> Arr xs"
  shows "mapFunction [Str source, Str destination, src] am =
           ((case convert \<lparr>sourceValue = src,
                           destinationValue = (case destinationTypeClass mapping of
                                                 Some c \<Rightarrow> new c
                                               | None \<Rightarrow> Obj None [])\<rparr> of
               Inl e \<Rightarrow> Thrown e
             | Inr v \<Rightarrow> Returned v), am)"
proof -
  have "mapItem mapping src =
          convert \<lparr>sourceValue = src, destinationValue = newDestination mapping\<rparr>"
    using assms(2) by (simp add: mapItem_def)
  then have "mapWith am source destination src =
          convert \<lparr>sourceValue = src, destinationValue = newDestination mapping\<rparr>"
    using assms(1,3) by (auto simp: mapWith_def split: jsval.splits)
  moreover have "newDestination mapping =
      (case destinationTypeClass mapping of Some c \<Rightarrow> new c | None \<Rightarrow> Obj None [])"
    by (simp add: newDestination_def emptyObject_def split: option.splits)
  ultimately show ?thesis
    by (simp add: mapFunction_def applyFunc_map_full)
qed

theorem map_converter_witness:
  "lookupMapping converting (''a'' @ ''b'') =
     Some ((createMapForMember (newMapping ''a'' ''b'') ''x'' (Value (Num 1)))
             \<lparr>typeConverterFunction := Some fixedConverter\<rparr>)
   \<and> (\<forall>xs. Obj None [(''x'', Num 5)] \<noteq> Arr xs)
   \<and> mapFunction [Str ''a'', Str ''b'', Obj None [(''x'', Num 5)]] converting =
       (Returned (Obj None [(''fixed'', Bool True)]), converting)"
  using map_converter [of converting "''a''" "''b''"
      "(createMapForMember (newMapping ''a'' ''b'') ''x'' (Value (Num 1)))
         \<lparr>typeConverterFunction := Some fixedConverter\<rparr>"
      fixedConverter "Obj None [(''x'', Num 5)]"]
  by (simp add: converting_lookup fixedConverter_def)

subsection \<open>Arrays\<close>

lemma mapArrayFrom_results:
  "list_all2 (\<lambda>x y. mapItem mapping x = Inr y) (drop index sourceArray) ys \<Longrightarrow>
     mapArrayFrom mapping sourceArray index acc = Inr (acc @ filter truthy ys)"
proof (induction mapping sourceArray index acc arbitrary: ys rule: mapArrayFrom.induct)
  case (1 mapping sourceArray index destinationArray)
  show ?case
  proof (cases "index < length sourceArray")
    case False
    with "1.prems" have "ys = []" by simp
    with False show ?thesis by (simp add: mapArrayFrom.simps)
  next
    case True
    then have d: "drop index sourceArray = sourceArray ! index # drop (index + 1) sourceArray"
      by (simp add: Cons_nth_drop_Suc)
    with "1.prems" obtain y ys' where ys: "ys = y # ys'"
      and y: "mapItem mapping (sourceArray ! index) = Inr y"
      and rest: "list_all2 (\<lambda>x y. mapItem mapping x = Inr y) (drop (index + 1) sourceArray) ys'"
      by (auto simp: list_all2_Cons1)
    from "1.IH"[OF True y rest]
    have "mapArrayFrom mapping sourceArray (index + 1)
            (if truthy y then destinationArray @ [y] else destinationArray) =
          Inr ((if truthy y then destinationArray @ [y] else destinationArray) @ filter truthy ys')" .
    with True y ys show ?thesis
      by (subst mapArrayFrom.simps) simp
  qed
qed

lemma sieve_lookup:
  "lookupMapping sieve ''ab'' =
     Some ((newMapping ''a'' ''b'')\<lparr>typeConverterFunction := Some sometimes\<rparr>)"
  by (simp add: sieve_def createMap_def applyFunc_createMap_full createMapWith_def initial_def
      convertUsing_def createMapConvertUsing_def lookupMapping_def)

text \<open>
  C6. For a registered definition and an array of length n whose elements map, one by
  one and in index order, to the results \<open>ys\<close>, map returns the array of exactly the
  truthy results, in that order; so its length is n less the number of falsy results.
\<close>

theorem mapArray_keeps_truthy:
  assumes "lookupMapping am (source @ destination) = Some mapping"
    and "list_all2 (\<lambda>x y. mapItem mapping x = Inr y) sourceArray ys"
  shows "mapFunction [Str source, Str destination, Arr sourceArray] am =
           (Returned (Arr (filter truthy ys)), am)
         \<and> length (filter truthy ys) =
             length sourceArray - length (filter (\<lambda>y. \<not> truthy y) ys)"
proof -
  from assms(2) have "mapArrayFrom mapping sourceArray 0 [] = Inr ([] @ filter truthy ys)"
    by (intro mapArrayFrom_results) simp
  then have "mapWith am source destination (Arr sourceArray) = Inr (Arr (filter truthy ys))"
    using assms(1) by (simp add: mapWith_def mapArray_def)
  moreover have "length ys = length sourceArray"
    using assms(2) by (simp add: list_all2_lengthD)
  moreover have "length (filter truthy ys) + length (filter (\<lambda>y. \<not> truthy y) ys) = length ys"
    by (rule sum_length_filter_compl)
  ultimately show ?thesis
    by (simp add: mapFunction_def applyFunc_map_full)
qed

theorem mapArray_keeps_truthy_witness:
  "lookupMapping sieve (''a'' @ ''b'') =
     Some ((newMapping ''a'' ''b'')\<lparr>typeConverterFunction := Some sometimes\<rparr>)
   \<and> list_all2
        (\<lambda>x y. mapItem ((newMapping ''a'' ''b'')\<lparr>typeConverterFunction := Some sometimes\<rparr>) x = Inr y)
        [Num 1, Num (- 2), Num 0, Num 3] [Num 1, Undefined, Num 0, Num 3]
   \<and> mapFunction [Str ''a'', Str ''b'', Arr [Num 1, Num (- 2), Num 0, Num 3]] sieve =
        (Returned (Arr [Num 1, Num 3]), sieve)"
  using mapArray_keeps_truthy [of sieve "''a''" "''b''"
      "(newMapping ''a'' ''b'')\<lparr>typeConverterFunction := Some sometimes\<rparr>"
      "[Num 1, Num (- 2), Num 0, Num 3]" "[Num 1, Undefined, Num 0, Num 3]"]
  by (simp add: sieve_lookup mapItem_def sometimes_def)

subsection \<open>The registry key\<close>

lemma configured_eq:
  "configured =
     \<lparr>profiles = [], mappings = [(''abc'', 0)],
      objects = [createMapForMember (newMapping ''ab'' ''c'') ''x'' (Value (Num 1))],
      arrays = []\<rparr>"
  by (simp add: configured_def createMap_def applyFunc_createMap_full createMapWith_def
      initial_def forMember_def)

lemma overwritten_eq:
  "overwritten =
     \<lparr>profiles = [], mappings = [(''abc'', 1)],
      objects = [createMapForMember (newMapping ''ab'' ''c'') ''x'' (Value (Num 1)),
                 newMapping ''a'' ''bc''],
      arrays = []\<rparr>"
  by (simp add: overwritten_def configured_eq createMap_def applyFunc_createMap_full
      createMapWith_def)

lemma configured_mapping:
  "createMapForMember (newMapping ''ab'' ''c'') ''x'' (Value (Num 1)) =
     \<lparr>sourceKey = ''ab'', destinationKey = ''c'', forAllMemberMappings = [],
      forMemberMappings =
        [(''x'', \<lparr>sourceProperty = ''x'', destinationProperty = Some ''x'',
                 mappingValuesAndFunctions = [Value (Num 1)], ignore = False,
                 conditionFunction = None\<rparr>)],
      typeConverterFunction = None, destinationTypeClass = None, profile = None\<rparr>"
  by (simp add: createMapForMember_def createMapForMemberFindMember_def newMapping_def
      applyValueOrFunction_def memberDefaults_def rekey_def)

lemma mapItem_configured:
  "mapItem (createMapForMember (newMapping ''ab'' ''c'') ''x'' (Value (Num 1)))
     (Obj None [(''x'', Num 5)]) = Inr (Obj None [(''x'', Num 1)])"
  by (simp add: configured_mapping mapItem_def newDestination_def emptyObject_def
      mapProperty_def mapSetValue_def propertyName_def)

lemma not_inherited_x: "\<not> inherited ''x''"
  by (simp add: inherited_def objectPrototypeKeys_def)

lemma mapItem_newMapping:
  "mapItem (newMapping s d) (Obj None [(''x'', v)]) = Inr (Obj None [(''x'', v)])"
  by (simp add: newMapping_def mapItem_def newDestination_def emptyObject_def
      mapProperty_def mapSetValue_def not_inherited_x)

text \<open>
  C3, at \<open>createMap('ab', 'c').forMember('x', 1)\<close> followed by \<open>createMap('a', 'bc')\<close>:
  both pairs share the registry key \<open>'abc'\<close>. Before the second registration
  \<open>map('ab', 'c', {x: 5})\<close> gives \<open>{x: 1}\<close>; after it the same call resolves the definition
  of the pair ('a', 'bc') and gives \<open>{x: 5}\<close>.
\<close>

theorem distinct_pairs_share_key:
  "registeredPairs overwritten = [(''ab'', ''c''), (''a'', ''bc'')]
   \<and> fst (mapFunction [Str ''ab'', Str ''c'', Obj None [(''x'', Num 5)]] configured) =
       Returned (Obj None [(''x'', Num 1)])
   \<and> fst (mapFunction [Str ''ab'', Str ''c'', Obj None [(''x'', Num 5)]] overwritten) =
       Returned (Obj None [(''x'', Num 5)])
   \<and> lookupMapping overwritten (''ab'' @ ''c'') = Some (newMapping ''a'' ''bc'')"
proof -
  have "registeredPairs overwritten = [(''ab'', ''c''), (''a'', ''bc'')]"
    by (simp add: registeredPairs_def overwritten_eq configured_mapping)
       (simp add: newMapping_def)
  moreover have "lookupMapping configured ''abc'' =
      Some (createMapForMember (newMapping ''ab'' ''c'') ''x'' (Value (Num 1)))"
    by (simp add: configured_eq lookupMapping_def)
  moreover have "lookupMapping overwritten ''abc'' = Some (newMapping ''a'' ''bc'')"
    by (simp add: overwritten_eq lookupMapping_def)
  ultimately show ?thesis
    by (simp add: mapFunction_def applyFunc_map_full mapWith_def mapItem_configured
        mapItem_newMapping)
qed

text \<open>
  When nothing is stored under the concatenated key and the key is not an inherited name,
  map raises and changes nothing.
\<close>

lemma map_unregistered_key:
  "map_of (mappings am) (source @ destination) = None \<Longrightarrow>
   \<not> inherited (source @ destination) \<Longrightarrow>
     mapFunction [Str source, Str destination, src] am =
       (Thrown (MappingNotFound source destination), am)"
  by (simp add: mapFunction_def applyFunc_map_full mapWith_def lookupMapping_def)

text \<open>
  C4, at \<open>createMap('ab', 'c')\<close> followed by \<open>map('a', 'bc', {x: 1})\<close>: createMap was never
  called for the pair ('a', 'bc'), and map returns \<open>{x: 1}\<close> instead of raising.
\<close>

theorem unregistered_pair_is_mapped:
  "registeredPairs (snd (createMap [Str ''ab'', Str ''c''] initial)) = [(''ab'', ''c'')]
   \<and> fst (mapFunction [Str ''a'', Str ''bc'', Obj None [(''x'', Num 1)]]
            (snd (createMap [Str ''ab'', Str ''c''] initial))) =
       Returned (Obj None [(''x'', Num 1)])"
proof -
  have am: "snd (createMap [Str ''ab'', Str ''c''] initial) =
      \<lparr>profiles = [], mappings = [(''abc'', 0)], objects = [newMapping ''ab'' ''c''], arrays = []\<rparr>"
    by (simp add: createMap_def applyFunc_createMap_full createMapWith_def initial_def)
  have "registeredPairs (snd (createMap [Str ''ab'', Str ''c''] initial)) = [(''ab'', ''c'')]"
    by (simp add: am registeredPairs_def newMapping_def)
  moreover have "lookupMapping (snd (createMap [Str ''ab'', Str ''c''] initial)) ''abc'' =
      Some (newMapping ''ab'' ''c'')"
    by (simp add: am lookupMapping_def)
  ultimately show ?thesis
    by (simp add: mapFunction_def applyFunc_map_full mapWith_def mapItem_newMapping)
qed

subsection \<open>Ignored members\<close>

text \<open>
  C2, at \<open>forSourceMember('p', opts => opts.ignore())\<close> on a fresh definition, and at
  \<open>forMember('p', opts => opts.ignore())\<close> followed by \<open>forSourceMember('p', opts => {})\<close>:
  in both cases the member \<open>'p'\<close> ends up ignored with one function in its sequence.
\<close>

theorem ignored_member_keeps_function:
  "map_sum id memberSummary
     (createMapForSourceMember (newMapping ''s'' ''d'') ''p'' (Function ignoring)) =
     Inr [(''p'', True, 1)]
   \<and> memberSummary (createMapForMember (newMapping ''s'' ''d'') ''p'' (Function ignoring)) =
     [(''p'', True, 0)]
   \<and> map_sum id memberSummary
       (createMapForSourceMember
          (createMapForMember (newMapping ''s'' ''d'') ''p'' (Function ignoring))
          ''p'' (Function nothing)) =
     Inr [(''p'', True, 1)]"
  by (simp add: createMapForSourceMember_def createMapForMember_def newMapping_def
      createMapForMemberFindMember_def applyValueOrFunction_def memberDefaults_def rekey_def
      createMapForMemberHandleMappingFunction_def declarationOptions_def
      ignoring_def nothing_def memberSummary_def sourceMemberOptions_def
      inherited_def objectPrototypeKeys_def)

subsection \<open>forMember with a function\<close>












lemma newMapping_fields:
  "sourceKey (newMapping s d) = s" "destinationKey (newMapping s d) = d"
  "forMemberMappings (newMapping s d) = []" "forAllMemberMappings (newMapping s d) = []"
  "typeConverterFunction (newMapping s d) = None" "destinationTypeClass (newMapping s d) = None"
  "profile (newMapping s d) = None"
  by (simp_all add: newMapping_def)






subsection \<open>Naming conventions\<close>

lemma splitLoop_no_match:
  "(\<And>q'. q \<le> q' \<Longrightarrow> q' < length S \<Longrightarrow> R S q' = None) \<Longrightarrow>
     splitLoop R S p q = [substring S p (length S)]"
proof (induction R S p q rule: splitLoop.induct)
  case (1 R S p q)
  show ?case
  proof (cases "q < length S")
    case False
    then show ?thesis by (simp add: splitLoop.simps)
  next
    case True
    with "1.prems" have none: "R S q = None" by simp
    have "splitLoop R S p (q + 1) = [substring S p (length S)]"
      using True none "1.prems" by (intro "1.IH"(1)) simp_all
    with True none show ?thesis
      by (subst splitLoop.simps) simp
  qed
qed

lemma split_no_match:
  assumes "name \<noteq> []" and "\<forall>q<length name. R name q = None"
  shows "split name R = [name]"
  using assms splitLoop_no_match[of 0 name R 0]
  by (simp add: split_def substring_def)

lemma split_fullName:
  "split ''fullName'' camelCaseSplittingExpression = [[], ''full'', [], ''Name'', []]"
  by code_simp

lemma named_lookup:
  "lookupMapping named ''CamelCase2PascalCase2'' =
     Some ((newMapping ''CamelCase2'' ''PascalCase2'')\<lparr>profile := Some camelToPascal\<rparr>)"
  by (simp add: named_def createMap_def applyFunc_createMap_full createMapWith_def initial_def
      addProfile_def withProfile_def createMapWithProfile_def camelToPascal_def
      createMapWithProfileMergeMappings_def lookupMapping_def profileKey_def newMapping_def)

text \<open>
  C8, as amended. A source member without a member mapping, whose name is not one that the
  dictionary of member mappings inherits from \<open>Object.prototype\<close>, under a definition with
  an assigned profile, is set on the destination under the name computed as follows: with
  both conventions there, the source name is split by the source convention's expression,
  the empty fragments are dropped and the destination convention's transform is applied;
  if the transform throws, or a convention is missing, the source name is used unchanged,
  and computing the name never raises. An expression that matches nowhere in the name is
  not such a failure: the whole name is then the one fragment handed to the transform.
\<close>

theorem auto_mapped_name:
  assumes "map_of (forMemberMappings mapping) name = None"
    and "\<not> inherited name"
    and "profile mapping = Some p"
  shows "mapProperty mapping source name v dest =
           mapSetValue mapping dest
             (case (sourceMemberNamingConvention p, destinationMemberNamingConvention p) of
                (Some sc, Some dc) \<Rightarrow>
                  (case transformPropertyName dc
                          (filter (\<lambda>part. part \<noteq> []) (split name (splittingExpression sc))) of
                     Inr destinationName \<Rightarrow> destinationName
                   | Inl e \<Rightarrow> name)
              | other \<Rightarrow> name) v
         \<and> (\<forall>sc. sourceMemberNamingConvention p = Some sc \<and> name \<noteq> []
                \<and> (\<forall>q<length name. splittingExpression sc name q = None)
              \<longrightarrow> split name (splittingExpression sc) = [name])"
proof -
  have "mapGetDestinationPropertyName p name =
          (case (sourceMemberNamingConvention p, destinationMemberNamingConvention p) of
             (Some sc, Some dc) \<Rightarrow>
               (case transformPropertyName dc
                       (filter (\<lambda>part. part \<noteq> []) (split name (splittingExpression sc))) of
                  Inr destinationName \<Rightarrow> destinationName
                | Inl e \<Rightarrow> name)
           | other \<Rightarrow> name)"
    by (simp add: mapGetDestinationPropertyName_def split: option.splits sum.splits)
  then show ?thesis
    using assms split_no_match by (simp add: mapProperty_def)
qed

theorem auto_mapped_name_witness:
  "map_of (forMemberMappings
      ((newMapping ''CamelCase2'' ''PascalCase2'')\<lparr>profile := Some camelToPascal\<rparr>)) ''fullName'' = None
   \<and> \<not> inherited ''fullName''
   \<and> \<not> inherited ''A_''
   \<and> profile ((newMapping ''CamelCase2'' ''PascalCase2'')\<lparr>profile := Some camelToPascal\<rparr>) =
       Some camelToPascal
   \<and> mapProperty ((newMapping ''CamelCase2'' ''PascalCase2'')\<lparr>profile := Some camelToPascal\<rparr>)
        (Obj None [(''fullName'', Str ''John Doe'')]) ''fullName'' (Str ''John Doe'') emptyObject =
       Inr (Obj None [(''FullName'', Str ''John Doe'')])
   \<and> mapFunction [Str ''CamelCase2'', Str ''PascalCase2'', Obj None [(''fullName'', Str ''John Doe'')]]
        named = (Returned (Obj None [(''FullName'', Str ''John Doe'')]), named)
   \<and> map_of (forMemberMappings ((newMapping ''s'' ''d'')\<lparr>profile := Some pascalToCamel\<rparr>)) ''A_'' = None
   \<and> profile ((newMapping ''s'' ''d'')\<lparr>profile := Some pascalToCamel\<rparr>) = Some pascalToCamel
   \<and> sourceMemberNamingConvention pascalToCamel = Some PascalCaseNamingConvention
   \<and> pascalCaseSplittingExpression ''A_'' 0 = None
   \<and> pascalCaseSplittingExpression ''A_'' 1 = None
   \<and> split ''A_'' (splittingExpression PascalCaseNamingConvention) = [''A_'']"
proof -
  let ?m = "(newMapping ''CamelCase2'' ''PascalCase2'')\<lparr>profile := Some camelToPascal\<rparr>"
  have none: "map_of (forMemberMappings ?m) ''fullName'' = None"
    and prof: "profile ?m = Some camelToPascal"
    by (simp_all add: newMapping_def)
  have own: "\<not> inherited ''fullName''" and own': "\<not> inherited ''A_''"
    by (simp_all add: inherited_def objectPrototypeKeys_def)
  have assigned: "mapProperty ?m (Obj None [(''fullName'', Str ''John Doe'')]) ''fullName''
      (Str ''John Doe'') emptyObject = Inr (Obj None [(''FullName'', Str ''John Doe'')])"
    using auto_mapped_name [OF none own prof, of "Obj None [(''fullName'', Str ''John Doe'')]"
        "Str ''John Doe''" emptyObject, THEN conjunct1]
    by (simp add: camelToPascal_def CamelCaseNamingConvention_def PascalCaseNamingConvention_def
        split_fullName pascalCaseTransformPropertyName_def capitalize_def toUpperCase_def
        lowerCase_def upperCase_def mapSetValue_def newMapping_def emptyObject_def)
  have "mapItem ?m (Obj None [(''fullName'', Str ''John Doe'')]) =
      Inr (Obj None [(''FullName'', Str ''John Doe'')])"
    using assigned by (simp add: mapItem_def newDestination_def newMapping_def emptyObject_def)
  then have "mapFunction [Str ''CamelCase2'', Str ''PascalCase2'',
        Obj None [(''fullName'', Str ''John Doe'')]] named =
      (Returned (Obj None [(''FullName'', Str ''John Doe'')]), named)"
    by (simp add: mapFunction_def applyFunc_map_full mapWith_def named_lookup)
  moreover
  let ?n = "(newMapping ''s'' ''d'')\<lparr>profile := Some pascalToCamel\<rparr>"
  have none': "map_of (forMemberMappings ?n) ''A_'' = None"
    and prof': "profile ?n = Some pascalToCamel"
    by (simp_all add: newMapping_def)
  have conv: "sourceMemberNamingConvention pascalToCamel = Some PascalCaseNamingConvention"
    by (simp add: pascalToCamel_def)
  have at0: "pascalCaseSplittingExpression ''A_'' 0 = None"
    and at1: "pascalCaseSplittingExpression ''A_'' 1 = None"
    by code_simp+
  have nowhere: "\<forall>q<length ''A_''. splittingExpression PascalCaseNamingConvention ''A_'' q = None"
  proof (intro allI impI)
    fix q :: nat
    assume "q < length ''A_''"
    then have "q = 0 \<or> q = 1" by auto
    with at0 at1 show "splittingExpression PascalCaseNamingConvention ''A_'' q = None"
      by (auto simp: PascalCaseNamingConvention_def)
  qed
  have "split ''A_'' (splittingExpression PascalCaseNamingConvention) = [''A_'']"
    using auto_mapped_name [OF none' own' prof', THEN conjunct2] conv nowhere by blast
  ultimately show ?thesis
    using none prof assigned none' prof' conv at0 at1 own own' by simp
qed

text \<open>
  C8 as stated fails where the expression does not match: under the built-in
  PascalCase-to-camelCase profile the expression matches at no position of \<open>'A_'\<close>, the
  split yields the whole name, and the member \<open>A_\<close> is mapped to \<open>a_\<close>, not to \<open>A_\<close>.
\<close>

theorem auto_mapped_name_counterexample:
  "map (pascalCaseSplittingExpression ''A_'') [0, 1, 2] = [None, None, None]
   \<and> split ''A_'' pascalCaseSplittingExpression = [''A_'']
   \<and> mapGetDestinationPropertyName pascalToCamel ''A_'' = ''a_''
   \<and> mapItem ((newMapping ''s'' ''d'')\<lparr>profile := Some pascalToCamel\<rparr>) (Obj None [(''A_'', Num 1)]) =
       Inr (Obj None [(''a_'', Num 1)])"
proof -
  have name: "mapGetDestinationPropertyName pascalToCamel ''A_'' = ''a_''"
    by code_simp
  have "map (pascalCaseSplittingExpression ''A_'') [0, 1, 2] = [None, None, None]"
    by code_simp
  moreover have "split ''A_'' pascalCaseSplittingExpression = [''A_'']"
    by code_simp
  moreover have "mapItem ((newMapping ''s'' ''d'')\<lparr>profile := Some pascalToCamel\<rparr>)
      (Obj None [(''A_'', Num 1)]) = Inr (Obj None [(''a_'', Num 1)])"
    by (simp add: mapItem_def newDestination_def newMapping_def mapProperty_def name
        mapSetValue_def emptyObject_def inherited_def objectPrototypeKeys_def)
  ultimately show ?thesis using name by simp
qed

subsection \<open>Currying\<close>

lemma handleCurrying_partial:
  assumes "length args < funcLength f"
  shows "handleCurrying f args am =
           (Later (Closure f (length (arrays am)) (int (funcLength f) - int (length args))),
            am\<lparr>arrays := arrays am @ [args]\<rparr>)"
  using assms by (simp add: handleCurrying_def accumulator_def Let_def)

lemma applyFunc_partial:
  assumes "length args < funcLength f"
  shows "applyFunc f args am =
           (Callable (Closure f (length (arrays am)) (int (funcLength f) - int (length args))),
            am\<lparr>arrays := arrays am @ [args]\<rparr>)"
  using assms by (subst applyFunc.simps) (simp add: handleCurrying_partial)

lemma invoke_reached:
  assumes "address < length (arrays am)"
    and "stillToCome - 2 * int (length moreArgs) \<le> 0"
  shows "invoke (Closure f address stillToCome) moreArgs am =
           applyFunc f (arrays am ! address @ moreArgs)
             (am\<lparr>arrays := arrays am @ [arrays am ! address @ moreArgs]\<rparr>)"
  using assms by (simp add: invoke_def accumulator_def Let_def nth_append)

lemma lookupMapping_registry:
  "registry am = registry am0 \<Longrightarrow> lookupMapping am k = lookupMapping am0 k"
  by (simp add: registry_def lookupMapping_def split: option.splits)

lemma applyFunc_full:
  assumes "funcLength f \<le> length args"
  shows "applyFunc f args am =
           (case f of
              CreateMapFunc \<Rightarrow>
                (ChainHandle (length (objects am)),
                 snd (createMapWith am (keyString (args ! 0)) (keyString (args ! 1))))
            | MapFunc \<Rightarrow>
                ((case mapWith am (keyString (args ! 0)) (keyString (args ! 1)) (args ! 2) of
                    Inl e \<Rightarrow> Thrown e
                  | Inr v \<Rightarrow> Returned v), am))"
  using assms
  by (subst applyFunc.simps) (simp add: createMapWith_def split: curriedFunc.splits sum.splits)

lemma applyFunc_full_registry:
  assumes "funcLength f \<le> length args" and "registry am = registry am0"
  shows "fst (applyFunc f args am) = fst (applyFunc f args am0)
         \<and> registry (snd (applyFunc f args am)) = registry (snd (applyFunc f args am0))
         \<and> arrays (snd (applyFunc f args am)) = arrays am"
proof -
  from assms(2) have same: "mapWith am = mapWith am0"
    by (intro ext) (simp add: mapWith_def lookupMapping_registry[OF assms(2)])
  show ?thesis
    unfolding applyFunc_full[OF assms(1)]
    using assms(2) same
    by (cases f) (simp_all add: createMapWith_def registry_def split: sum.splits)
qed

lemma invoke_later:
  assumes "address < length (arrays am)"
    and "\<not> stillToCome - 2 * int (length moreArgs) \<le> 0"
  shows "invoke (Closure f address stillToCome) moreArgs am =
           (Callable (Closure f (length (arrays am)) (stillToCome - int (length moreArgs))),
            am\<lparr>arrays := arrays am @ [arrays am ! address @ moreArgs]\<rparr>)"
  using assms by (simp add: invoke_def accumulator_def Let_def nth_append)

lemma captures_kept_arrays:
  "captures c f prefix am \<Longrightarrow> arrays am' = arrays am @ extra \<Longrightarrow> captures c f prefix am'"
  by (auto simp: captures_def nth_append split: closure.splits)

lemma invoke_enough:
  assumes "captures c f prefix am"
    and "funcLength f \<le> length prefix + length moreArgs"
  shows "fst (invoke c moreArgs am) = fst (applyFunc f (prefix @ moreArgs) am)
         \<and> registry (snd (invoke c moreArgs am)) = registry (snd (applyFunc f (prefix @ moreArgs) am))
         \<and> arrays (snd (invoke c moreArgs am)) = arrays am @ [prefix @ moreArgs]"
proof -
  from assms(1) obtain address where c: "c = Closure f address (int (funcLength f) - int (length prefix))"
    and address: "address < length (arrays am)" and held: "arrays am ! address = prefix"
    by (auto simp: captures_def split: closure.splits)
  let ?am' = "am\<lparr>arrays := arrays am @ [prefix @ moreArgs]\<rparr>"
  have "invoke c moreArgs am = applyFunc f (prefix @ moreArgs) ?am'"
    unfolding c using address held assms(2) by (subst invoke_reached) simp_all
  moreover have "funcLength f \<le> length (prefix @ moreArgs)"
    using assms(2) by simp
  moreover have "registry ?am' = registry am"
    by (simp add: registry_def)
  ultimately show ?thesis
    using applyFunc_full_registry[of f "prefix @ moreArgs" ?am' am] by simp
qed

lemma invoke_short:
  assumes "captures c f prefix am"
    and "length prefix + length moreArgs < funcLength f"
  shows "\<exists>c' extra. fst (invoke c moreArgs am) = Callable c'
           \<and> registry (snd (invoke c moreArgs am)) = registry am
           \<and> arrays (snd (invoke c moreArgs am)) = arrays am @ extra
           \<and> captures c' f (prefix @ moreArgs) (snd (invoke c moreArgs am))"
proof -
  from assms(1) obtain address where c: "c = Closure f address (int (funcLength f) - int (length prefix))"
    and address: "address < length (arrays am)" and held: "arrays am ! address = prefix"
    by (auto simp: captures_def split: closure.splits)
  let ?st = "int (funcLength f) - int (length prefix)"
  let ?am' = "am\<lparr>arrays := arrays am @ [prefix @ moreArgs]\<rparr>"
  show ?thesis
  proof (cases "?st - 2 * int (length moreArgs) \<le> 0")
    case True
    have "invoke c moreArgs am = applyFunc f (prefix @ moreArgs) ?am'"
      unfolding c using address held True by (subst invoke_reached) simp_all
    also have "\<dots> = (Callable (Closure f (length (arrays ?am'))
                        (int (funcLength f) - int (length (prefix @ moreArgs)))),
                     ?am'\<lparr>arrays := arrays ?am' @ [prefix @ moreArgs]\<rparr>)"
      using assms(2) by (intro applyFunc_partial) simp
    finally show ?thesis
      by (simp add: registry_def captures_def nth_append)
  next
    case False
    have "invoke c moreArgs am =
        (Callable (Closure f (length (arrays am)) (?st - int (length moreArgs))), ?am')"
      unfolding c using address held False by (subst invoke_later) simp_all
    then show ?thesis
      by (simp add: registry_def captures_def nth_append)
  qed
qed

text \<open>
  C7. For createMap and map alike (\<open>f\<close>, of declared arity \<open>funcLength f\<close>): a call with
  fewer arguments returns a callable that captures them and leaves the registry alone.
  Calling a callable that captures \<open>prefix\<close> with arguments that complete the arity gives
  the result, and the registry, of the direct call with the prefix and those arguments;
  calling it with too few gives a callable that captures the longer prefix. Either call
  leaves every callable capturing what it captured, so the same callable can be called
  again, and only its own prefix and the new arguments enter the result.
\<close>

theorem curried_call:
  "(length prefix < funcLength f \<longrightarrow>
      (\<exists>c. fst (applyFunc f prefix am) = Callable c
          \<and> registry (snd (applyFunc f prefix am)) = registry am
          \<and> captures c f prefix (snd (applyFunc f prefix am))))
   \<and> (captures c f prefix am \<and> funcLength f \<le> length prefix + length moreArgs \<longrightarrow>
        fst (invoke c moreArgs am) = fst (applyFunc f (prefix @ moreArgs) am)
      \<and> registry (snd (invoke c moreArgs am)) = registry (snd (applyFunc f (prefix @ moreArgs) am)))
   \<and> (captures c f prefix am \<and> length prefix + length moreArgs < funcLength f \<longrightarrow>
        (\<exists>c'. fst (invoke c moreArgs am) = Callable c'
            \<and> registry (snd (invoke c moreArgs am)) = registry am
            \<and> captures c' f (prefix @ moreArgs) (snd (invoke c moreArgs am))))
   \<and> (captures c f prefix am \<and> captures d g other am \<longrightarrow>
        captures d g other (snd (invoke c moreArgs am)))"
proof (intro conjI impI)
  assume short: "length prefix < funcLength f"
  show "\<exists>c. fst (applyFunc f prefix am) = Callable c
          \<and> registry (snd (applyFunc f prefix am)) = registry am
          \<and> captures c f prefix (snd (applyFunc f prefix am))"
    by (simp add: applyFunc_partial[OF short] registry_def captures_def)
next
  assume "captures c f prefix am \<and> funcLength f \<le> length prefix + length moreArgs"
  then show "fst (invoke c moreArgs am) = fst (applyFunc f (prefix @ moreArgs) am)"
    and "registry (snd (invoke c moreArgs am)) = registry (snd (applyFunc f (prefix @ moreArgs) am))"
    using invoke_enough by blast+
next
  assume "captures c f prefix am \<and> length prefix + length moreArgs < funcLength f"
  then show "\<exists>c'. fst (invoke c moreArgs am) = Callable c'
            \<and> registry (snd (invoke c moreArgs am)) = registry am
            \<and> captures c' f (prefix @ moreArgs) (snd (invoke c moreArgs am))"
    using invoke_short by blast
next
  assume both: "captures c f prefix am \<and> captures d g other am"
  show "captures d g other (snd (invoke c moreArgs am))"
  proof (cases "funcLength f \<le> length prefix + length moreArgs")
    case True
    with both invoke_enough[of c f prefix am moreArgs] captures_kept_arrays show ?thesis
      by blast
  next
    case False
    then have "length prefix + length moreArgs < funcLength f" by simp
    with both invoke_short[of c f prefix am moreArgs] captures_kept_arrays show ?thesis
      by blast
  qed
qed

theorem curried_call_witness:
  "length [Str ''k''] < funcLength CreateMapFunc
   \<and> funcLength CreateMapFunc \<le> length [Str ''k''] + length [Str ''t1'']
   \<and> (\<exists>c. fst (createMap [Str ''k''] initial) = Callable c
          \<and> captures c CreateMapFunc [Str ''k''] (snd (createMap [Str ''k''] initial))
          \<and> fst (invoke c [Str ''t1''] (snd (createMap [Str ''k''] initial))) = ChainHandle 0
          \<and> captures c CreateMapFunc [Str ''k'']
               (snd (invoke c [Str ''t1''] (snd (createMap [Str ''k''] initial))))
          \<and> fst (invoke c [Str ''t2'']
                 (snd (invoke c [Str ''t1''] (snd (createMap [Str ''k''] initial))))) = ChainHandle 1
          \<and> registry (snd (invoke c [Str ''t2'']
                 (snd (invoke c [Str ''t1''] (snd (createMap [Str ''k''] initial)))))) =
              ([], [(''kt1'', 0), (''kt2'', 1)], [newMapping ''k'' ''t1'', newMapping ''k'' ''t2'']))"
proof -
  let ?am1 = "snd (applyFunc CreateMapFunc [Str ''k''] initial)"
  from curried_call [where f = CreateMapFunc and prefix = "[Str ''k'']" and am = initial,
      THEN conjunct1]
  obtain c where c: "fst (applyFunc CreateMapFunc [Str ''k''] initial) = Callable c"
    and reg1: "registry ?am1 = registry initial"
    and cap1: "captures c CreateMapFunc [Str ''k''] ?am1"
    by auto
  let ?am2 = "snd (invoke c [Str ''t1''] ?am1)"
  note step1 = curried_call [where f = CreateMapFunc and c = c and prefix = "[Str ''k'']"
      and am = ?am1 and moreArgs = "[Str ''t1'']" and d = c and g = CreateMapFunc
      and other = "[Str ''k'']"]
  from step1 cap1 have r1: "fst (invoke c [Str ''t1''] ?am1) =
      fst (applyFunc CreateMapFunc ([Str ''k''] @ [Str ''t1'']) ?am1)"
    and reg2: "registry ?am2 =
      registry (snd (applyFunc CreateMapFunc ([Str ''k''] @ [Str ''t1'']) ?am1))"
    and cap2: "captures c CreateMapFunc [Str ''k''] ?am2"
    by simp_all
  let ?am3 = "snd (invoke c [Str ''t2''] ?am2)"
  note step2 = curried_call [where f = CreateMapFunc and c = c and prefix = "[Str ''k'']"
      and am = ?am2 and moreArgs = "[Str ''t2'']" and d = c and g = CreateMapFunc
      and other = "[Str ''k'']"]
  from step2 cap2 have r2: "fst (invoke c [Str ''t2''] ?am2) =
      fst (applyFunc CreateMapFunc ([Str ''k''] @ [Str ''t2'']) ?am2)"
    and reg3: "registry ?am3 =
      registry (snd (applyFunc CreateMapFunc ([Str ''k''] @ [Str ''t2'']) ?am2))"
    by simp_all
  from reg1 have one: "profiles ?am1 = [] \<and> mappings ?am1 = [] \<and> objects ?am1 = []"
    by (simp add: registry_def initial_def)
  from reg2 one have two: "profiles ?am2 = [] \<and> mappings ?am2 = [(''kt1'', 0)]
      \<and> objects ?am2 = [newMapping ''k'' ''t1'']"
    by (simp add: registry_def applyFunc_createMap_full createMapWith_def)
  from reg3 two have three: "registry ?am3 =
      ([], [(''kt1'', 0), (''kt2'', 1)], [newMapping ''k'' ''t1'', newMapping ''k'' ''t2''])"
    by (simp add: registry_def applyFunc_createMap_full createMapWith_def)
  from r1 one have "fst (invoke c [Str ''t1''] ?am1) = ChainHandle 0"
    by (simp add: applyFunc_createMap_full)
  moreover from r2 two have "fst (invoke c [Str ''t2''] ?am2) = ChainHandle 1"
    by (simp add: applyFunc_createMap_full)
  ultimately show ?thesis
    using c cap1 cap2 three by (auto simp: createMap_def)
qed

subsection \<open>Merging a profile\<close>

lemma mergeMemberMappings_fields:
  "forAllMemberMappings (mergeMemberMappings ps m) = forAllMemberMappings m
   \<and> typeConverterFunction (mergeMemberMappings ps m) = typeConverterFunction m
   \<and> destinationTypeClass (mergeMemberMappings ps m) = destinationTypeClass m
   \<and> profile (mergeMemberMappings ps m) = profile m"
  by (induction ps arbitrary: m) (auto split: option.splits)

text \<open>
  What withProfile does to the other fields, for a registered profile with a staged
  definition: the profile is assigned, the staged forAllMembers functions come after the
  existing ones, and the staged converter and destination class are taken where set.
\<close>

lemma withProfile_fields:
  assumes "map_of (profiles am) name = Some prof" and "profileName prof = name"
    and "lookupMapping am
           (profileKey name (sourceKey mapping) @ profileKey name (destinationKey mapping)) =
         Some staged"
  shows "\<exists>merged. createMapWithProfile am mapping name = Inr merged
         \<and> profile merged = Some prof
         \<and> forAllMemberMappings merged =
             forAllMemberMappings mapping @ forAllMemberMappings staged
         \<and> typeConverterFunction merged =
             (case typeConverterFunction staged of
                Some f \<Rightarrow> Some f | None \<Rightarrow> typeConverterFunction mapping)
         \<and> destinationTypeClass merged =
             (case destinationTypeClass staged of
                Some c \<Rightarrow> Some c | None \<Rightarrow> destinationTypeClass mapping)"
  using assms
  by (simp add: createMapWithProfile_def createMapWithProfileMergeMappings_def
      mergeMemberMappings_fields split: option.splits cong: option.case_cong)

lemma forMember_mappedFrom_fresh:
  "createMapForMember (newMapping s d) x (Function (mappedFrom a)) =
     (newMapping s d)\<lparr>forMemberMappings :=
        [(a, \<lparr>sourceProperty = a, destinationProperty = Some x,
               mappingValuesAndFunctions = [Function (mappedFrom a)], ignore = False,
               conditionFunction = None\<rparr>)]\<rparr>"
  by (simp add: createMapForMember_def createMapForMemberFindMember_def newMapping_def
      applyValueOrFunction_def memberDefaults_def rekey_def
      createMapForMemberHandleMappingFunction_def mappedFrom_def)

lemma forMember_mappedFrom_second:
  assumes "x \<noteq> y"
  shows "createMapForMember
           ((newMapping s d)\<lparr>forMemberMappings :=
              [(a, \<lparr>sourceProperty = a, destinationProperty = Some x,
                     mappingValuesAndFunctions = [Function (mappedFrom a)], ignore = False,
                     conditionFunction = None\<rparr>)]\<rparr>) y (Function (mappedFrom b)) =
         (newMapping s d)\<lparr>forMemberMappings :=
            AList.update b
              \<lparr>sourceProperty = b, destinationProperty = Some y,
                mappingValuesAndFunctions = [Function (mappedFrom b)], ignore = False,
                conditionFunction = None\<rparr>
              [(a, \<lparr>sourceProperty = a, destinationProperty = Some x,
                     mappingValuesAndFunctions = [Function (mappedFrom a)], ignore = False,
                     conditionFunction = None\<rparr>)]\<rparr>"
  using assms
  by (simp add: createMapForMember_def createMapForMemberFindMember_def newMapping_def
      applyValueOrFunction_def memberDefaults_def rekey_def
      createMapForMemberHandleMappingFunction_def mappedFrom_def)

lemma clash_eq:
  "clash =
     \<lparr>profiles = [(''P'', profileP)],
      mappings = [(''P=>SP=>D'', 0), (''SD'', 1)],
      objects =
        [createMapForMember
           (createMapForMember (newMapping ''P=>S'' ''P=>D'') ''y'' (Function (mappedFrom ''a'')))
           ''x'' (Function (mappedFrom ''c'')),
         createMapForMember
           (createMapForMember (newMapping ''S'' ''D'') ''x'' (Function (mappedFrom ''a'')))
           ''y'' (Function (mappedFrom ''b''))],
      arrays = []\<rparr>"
  by (simp add: clash_def addProfile_def configureClash_def profileCreateMap_def profileKey_def
      createMap_def applyFunc_createMap_full createMapWith_def initial_def forMember_def
      profileP_def)

lemma swapped_eq:
  "swapped =
     \<lparr>profiles = [(''P'', profileP)],
      mappings = [(''P=>SP=>D'', 0), (''SD'', 1)],
      objects =
        [createMapForMember
           (createMapForMember (newMapping ''P=>S'' ''P=>D'') ''x'' (Function (mappedFrom ''c'')))
           ''y'' (Function (mappedFrom ''a'')),
         createMapForMember
           (createMapForMember (newMapping ''S'' ''D'') ''x'' (Function (mappedFrom ''a'')))
           ''y'' (Function (mappedFrom ''b''))],
      arrays = []\<rparr>"
  by (simp add: swapped_def addProfile_def configureSwapped_def profileCreateMap_def profileKey_def
      createMap_def applyFunc_createMap_full createMapWith_def initial_def forMember_def
      profileP_def)

lemma clash_merge:
  "map memberDestinations (objects clash) =
     [[(''a'', Some ''y''), (''c'', Some ''x'')], [(''a'', Some ''x''), (''b'', Some ''y'')]]
   \<and> map_sum id (map memberDestinations \<circ> objects) (withProfile 1 ''P'' clash) =
       Inr [[(''a'', Some ''y''), (''c'', Some ''x'')], [(''a'', Some ''y'')]]"
proof -
  let ?staged = "createMapForMember
      (createMapForMember (newMapping ''P=>S'' ''P=>D'') ''y'' (Function (mappedFrom ''a'')))
      ''x'' (Function (mappedFrom ''c''))"
  let ?live = "createMapForMember
      (createMapForMember (newMapping ''S'' ''D'') ''x'' (Function (mappedFrom ''a'')))
      ''y'' (Function (mappedFrom ''b''))"
  have staged: "forMemberMappings ?staged =
      [(''a'', \<lparr>sourceProperty = ''a'', destinationProperty = Some ''y'',
               mappingValuesAndFunctions = [Function (mappedFrom ''a'')], ignore = False,
               conditionFunction = None\<rparr>),
       (''c'', \<lparr>sourceProperty = ''c'', destinationProperty = Some ''x'',
               mappingValuesAndFunctions = [Function (mappedFrom ''c'')], ignore = False,
               conditionFunction = None\<rparr>)]"
    by (simp add: forMember_mappedFrom_fresh forMember_mappedFrom_second)
  have live: "forMemberMappings ?live =
      [(''a'', \<lparr>sourceProperty = ''a'', destinationProperty = Some ''x'',
               mappingValuesAndFunctions = [Function (mappedFrom ''a'')], ignore = False,
               conditionFunction = None\<rparr>),
       (''b'', \<lparr>sourceProperty = ''b'', destinationProperty = Some ''y'',
               mappingValuesAndFunctions = [Function (mappedFrom ''b'')], ignore = False,
               conditionFunction = None\<rparr>)]"
    by (simp add: forMember_mappedFrom_fresh forMember_mappedFrom_second)
  have keys: "sourceKey ?live = ''S''" "destinationKey ?live = ''D''"
    by (simp_all add: forMember_mappedFrom_fresh forMember_mappedFrom_second newMapping_fields)
  have before: "map memberDestinations (objects clash) =
      [[(''a'', Some ''y''), (''c'', Some ''x'')], [(''a'', Some ''x''), (''b'', Some ''y'')]]"
    by (simp add: clash_eq memberDestinations_def staged live)
  have look: "lookupMapping clash ''P=>SP=>D'' = Some ?staged"
    by (simp add: clash_eq lookupMapping_def)
  have "memberDestinations (createMapWithProfileMergeMappings clash
      (?live\<lparr>profile := Some profileP\<rparr>) ''P'') = [(''a'', Some ''y'')]"
    by (simp add: createMapWithProfileMergeMappings_def keys profileKey_def look staged
        live createMapForMemberFindMember_def memberDestinations_def)
  moreover have "withProfile 1 ''P'' clash =
      Inr (clash\<lparr>objects := (objects clash)[1 :=
        createMapWithProfileMergeMappings clash (?live\<lparr>profile := Some profileP\<rparr>) ''P'']\<rparr>)"
    by (simp add: withProfile_def createMapWithProfile_def clash_eq profileP_def)
  ultimately have "map_sum id (map memberDestinations \<circ> objects) (withProfile 1 ''P'' clash) =
      Inr [[(''a'', Some ''y''), (''c'', Some ''x'')], [(''a'', Some ''y'')]]"
    by (simp add: clash_eq) (simp add: memberDestinations_def staged)
  with before show ?thesis by simp
qed

lemma swapped_merge:
  "map memberDestinations (objects swapped) =
     [[(''c'', Some ''x''), (''a'', Some ''y'')], [(''a'', Some ''x''), (''b'', Some ''y'')]]
   \<and> map_sum id (map memberDestinations \<circ> objects) (withProfile 1 ''P'' swapped) =
       Inr [[(''c'', Some ''x''), (''a'', Some ''y'')], [(''c'', Some ''x''), (''a'', Some ''y'')]]"
proof -
  let ?staged = "createMapForMember
      (createMapForMember (newMapping ''P=>S'' ''P=>D'') ''x'' (Function (mappedFrom ''c'')))
      ''y'' (Function (mappedFrom ''a''))"
  let ?live = "createMapForMember
      (createMapForMember (newMapping ''S'' ''D'') ''x'' (Function (mappedFrom ''a'')))
      ''y'' (Function (mappedFrom ''b''))"
  have staged: "forMemberMappings ?staged =
      [(''c'', \<lparr>sourceProperty = ''c'', destinationProperty = Some ''x'',
               mappingValuesAndFunctions = [Function (mappedFrom ''c'')], ignore = False,
               conditionFunction = None\<rparr>),
       (''a'', \<lparr>sourceProperty = ''a'', destinationProperty = Some ''y'',
               mappingValuesAndFunctions = [Function (mappedFrom ''a'')], ignore = False,
               conditionFunction = None\<rparr>)]"
    by (simp add: forMember_mappedFrom_fresh forMember_mappedFrom_second)
  have live: "forMemberMappings ?live =
      [(''a'', \<lparr>sourceProperty = ''a'', destinationProperty = Some ''x'',
               mappingValuesAndFunctions = [Function (mappedFrom ''a'')], ignore = False,
               conditionFunction = None\<rparr>),
       (''b'', \<lparr>sourceProperty = ''b'', destinationProperty = Some ''y'',
               mappingValuesAndFunctions = [Function (mappedFrom ''b'')], ignore = False,
               conditionFunction = None\<rparr>)]"
    by (simp add: forMember_mappedFrom_fresh forMember_mappedFrom_second)
  have keys: "sourceKey ?live = ''S''" "destinationKey ?live = ''D''"
    by (simp_all add: forMember_mappedFrom_fresh forMember_mappedFrom_second newMapping_fields)
  have before: "map memberDestinations (objects swapped) =
      [[(''c'', Some ''x''), (''a'', Some ''y'')], [(''a'', Some ''x''), (''b'', Some ''y'')]]"
    by (simp add: swapped_eq memberDestinations_def staged live)
  have look: "lookupMapping swapped ''P=>SP=>D'' = Some ?staged"
    by (simp add: swapped_eq lookupMapping_def)
  have "memberDestinations (createMapWithProfileMergeMappings swapped
      (?live\<lparr>profile := Some profileP\<rparr>) ''P'') = [(''c'', Some ''x''), (''a'', Some ''y'')]"
    by (simp add: createMapWithProfileMergeMappings_def keys profileKey_def look staged
        live createMapForMemberFindMember_def memberDestinations_def)
  moreover have "withProfile 1 ''P'' swapped =
      Inr (swapped\<lparr>objects := (objects swapped)[1 :=
        createMapWithProfileMergeMappings swapped (?live\<lparr>profile := Some profileP\<rparr>) ''P'']\<rparr>)"
    by (simp add: withProfile_def createMapWithProfile_def swapped_eq profileP_def)
  ultimately have "map_sum id (map memberDestinations \<circ> objects) (withProfile 1 ''P'' swapped) =
      Inr [[(''c'', Some ''x''), (''a'', Some ''y'')], [(''c'', Some ''x''), (''a'', Some ''y'')]]"
    by (simp add: swapped_eq) (simp add: memberDestinations_def staged)
  with before show ?thesis by simp
qed

text \<open>
  C1, at a profile \<open>P\<close> staging \<open>forMember('y', opts => opts.mapFrom('a'))\<close> and then
  \<open>forMember('x', opts => opts.mapFrom('c'))\<close>, merged by withProfile('P') into a definition
  made with \<open>forMember('x', opts => opts.mapFrom('a'))\<close> and
  \<open>forMember('y', opts => opts.mapFrom('b'))\<close>. Both sides have a member for \<open>'x'\<close>. After the
  call the definition holds the staged member for \<open>'y'\<close> under \<open>'a'\<close> and no member for \<open>'x'\<close>:
  the staged member for \<open>'x'\<close> has not replaced the existing one, it is lost along with it.
  With the two forMember calls of the profile in the other order, both staged members
  replace their counterparts.
\<close>

theorem withProfile_drops_staged_member:
  "map memberDestinations (objects clash) =
     [[(''a'', Some ''y''), (''c'', Some ''x'')], [(''a'', Some ''x''), (''b'', Some ''y'')]]
   \<and> map_sum id (map memberDestinations \<circ> objects) (withProfile 1 ''P'' clash) =
       Inr [[(''a'', Some ''y''), (''c'', Some ''x'')], [(''a'', Some ''y'')]]
   \<and> map memberDestinations (objects swapped) =
       [[(''c'', Some ''x''), (''a'', Some ''y'')], [(''a'', Some ''x''), (''b'', Some ''y'')]]
   \<and> map_sum id (map memberDestinations \<circ> objects) (withProfile 1 ''P'' swapped) =
       Inr [[(''c'', Some ''x''), (''a'', Some ''y'')], [(''c'', Some ''x''), (''a'', Some ''y'')]]"
  using clash_merge swapped_merge by simp

end
